theory Spec2Isabelle
  imports Complex_Main "HOL-Library.Char_ord" "HOL-Library.List_Lexorder"
    "HOL-Library.Product_Lexorder"
begin

section \<open>Python values shared by the engine\<close>

text \<open>
  The engine is Python: numbers are modelled as \<^typ>\<open>real\<close> (the arithmetic of the
  source is read as exact arithmetic), exceptions as values of \<open>py_error\<close>, and a
  function that may raise returns \<open>py_error + 'a\<close> with \<open>Inl\<close> for the exception.
\<close>

datatype py_error = AttributeError | TypeError | ValueError | IndexError

text \<open>\<open>np.mean\<close> of a non-empty list of numbers. Every call site of the source guards
  the empty case (\<open>if ml_probs:\<close>), and so does every use below.\<close>

definition mean :: "real list \<Rightarrow> real" where
  "mean xs = sum_list xs / real (length xs)"

text \<open>Python's \<open>sub in s\<close> on strings: \<open>sub\<close> occurs as a contiguous run of \<open>s\<close>.\<close>

fun starts_with :: "string \<Rightarrow> string \<Rightarrow> bool" where
  "starts_with s [] = True"
| "starts_with [] (c # cs) = False"
| "starts_with (x # xs) (c # cs) = (x = c \<and> starts_with xs cs)"

fun str_contains :: "string \<Rightarrow> string \<Rightarrow> bool" where
  "str_contains [] sub = (sub = [])"
| "str_contains (x # xs) sub = (starts_with (x # xs) sub \<or> str_contains xs sub)"

text \<open>A Python \<open>dict\<close> whose insertion order matters is an association list;
  \<open>d[k] = v\<close> overwrites the value of a key already present and appends a new key.\<close>

fun dict_set :: "'k \<Rightarrow> 'v \<Rightarrow> ('k \<times> 'v) list \<Rightarrow> ('k \<times> 'v) list" where
  "dict_set k v [] = [(k, v)]"
| "dict_set k v ((k', v') # d) = (if k = k' then (k, v) # d else (k', v') # dict_set k v d)"

section \<open>Transactions\<close>

text \<open>
  A transaction reaches the engine as a \<open>dict\<close> (\<open>TransactionRequest.dict()\<close> in
  api/detection.py). A key is absent, present with the value \<open>None\<close>, or present with a
  value of the type the request schema gives the field. \<open>d.get(k)\<close> and \<open>d.get(k, default)\<close>
  differ only on an absent key.
\<close>

datatype 'a field = Absent | PyNone | Val 'a

fun dict_get :: "'a field \<Rightarrow> 'a option" where
  "dict_get Absent = None"
| "dict_get PyNone = None"
| "dict_get (Val v) = Some v"

fun dict_get_default :: "'a field \<Rightarrow> 'a \<Rightarrow> 'a option" where
  "dict_get_default Absent d = Some d"
| "dict_get_default PyNone d = None"
| "dict_get_default (Val v) d = Some v"

text \<open>
  A timestamp is a \<open>datetime\<close> object, of which the rules read the hour only, or a
  \<open>str\<close>. A string is kept together with what \<open>datetime.fromisoformat\<close> makes of it:
  \<open>None\<close> when it raises \<open>ValueError\<close>, \<open>Some h\<close> for a datetime whose hour is \<open>h\<close>.
\<close>

datatype timestamp = Datetime nat | Iso_string string "nat option"

record transaction =
  amount :: "real field"
  latitude :: "real field"
  longitude :: "real field"
  ip_address :: "string field"
  timestamp :: "timestamp field"
  merchant_category :: "string field"

text \<open>\<open>float(transaction_data.get('amount', 0))\<close>: \<open>float(None)\<close> raises \<open>TypeError\<close>.\<close>

definition float_amount :: "transaction \<Rightarrow> py_error + real" where
  "float_amount txn =
     (case dict_get_default (amount txn) 0 of None \<Rightarrow> Inl TypeError | Some a \<Rightarrow> Inr a)"

section \<open>core/fraud\_detector.py: the rule battery\<close>

text \<open>
  A rule returns the dict \<open>{'triggered', 'risk_score', 'reason'}\<close>; \<open>_run_rules\<close> stores
  \<open>{'error': str(e)}\<close> for a rule that raised. The reason texts are kept as constructors;
  those built by an f-string carry the value the f-string formats.
\<close>

datatype reason =
    High_amount real | Unusual_amount real | Amount_within_normal_range
  | Velocity_check_passed
  | Missing_location_data | Invalid_coordinates | Location_data_valid
  | Missing_timestamp | Unusual_hour nat | Normal_time_pattern
  | High_risk_merchant_category string | Standard_merchant_category

datatype rule_dict = Rule_result bool real reason | Rule_error py_error

text \<open>A value stored in a result dict is a dict, or (on the outer \<open>except\<close> paths of
  \<open>_run_ml_models\<close> and \<open>_run_rules\<close>, which store \<open>str(e)\<close> under the key \<open>'error'\<close>) a
  bare string.\<close>

datatype 'd entry = Dict 'd | Str string

definition amount_threshold_rule :: "transaction \<Rightarrow> py_error + rule_dict" where
  "amount_threshold_rule txn =
     (case float_amount txn of
        Inl e \<Rightarrow> Inl e
      | Inr a \<Rightarrow>
          Inr (if a > 10000 then Rule_result True 0.8 (High_amount a)
               else if a > 5000 then Rule_result True 0.6 (Unusual_amount a)
               else Rule_result False 0.1 Amount_within_normal_range))"

definition velocity_rule :: "transaction \<Rightarrow> py_error + rule_dict" where
  "velocity_rule txn = Inr (Rule_result False 0.2 Velocity_check_passed)"

definition location_rule :: "transaction \<Rightarrow> py_error + rule_dict" where
  "location_rule txn =
     (case (dict_get (latitude txn), dict_get (longitude txn)) of
        (Some lat, Some lon) \<Rightarrow>
          Inr (if \<bar>lat\<bar> > 90 \<or> \<bar>lon\<bar> > 180 then Rule_result True 0.9 Invalid_coordinates
               else Rule_result False 0.1 Location_data_valid)
      | _ \<Rightarrow> Inr (Rule_result True 0.7 Missing_location_data))"

definition unusual_hours :: "nat \<Rightarrow> rule_dict" where
  "unusual_hours h =
     (if 2 \<le> h \<and> h \<le> 5 then Rule_result True 0.5 (Unusual_hour h)
      else Rule_result False 0.1 Normal_time_pattern)"

definition time_pattern_rule :: "transaction \<Rightarrow> py_error + rule_dict" where
  "time_pattern_rule txn =
     (case dict_get (timestamp txn) of
        None \<Rightarrow> Inr (Rule_result True 0.6 Missing_timestamp)
      | Some (Datetime h) \<Rightarrow> Inr (unusual_hours h)
      | Some (Iso_string s parsed) \<Rightarrow>
          (if s = [] then Inr (Rule_result True 0.6 Missing_timestamp)
           else (case parsed of None \<Rightarrow> Inl ValueError | Some h \<Rightarrow> Inr (unusual_hours h))))"

text \<open>\<open>str.lower\<close>, on the ASCII letters.\<close>

definition lower_char :: "char \<Rightarrow> char" where
  "lower_char c =
     (if CHR ''A'' \<le> c \<and> c \<le> CHR ''Z'' then char_of (of_char c + (32::nat)) else c)"

definition high_risk_categories :: "string list" where
  "high_risk_categories = [''gambling'', ''cryptocurrency'', ''adult'', ''pharmacy'']"

definition merchant_risk_rule :: "transaction \<Rightarrow> py_error + rule_dict" where
  "merchant_risk_rule txn =
     (case dict_get_default (merchant_category txn) [] of
        None \<Rightarrow> Inl AttributeError
      | Some raw \<Rightarrow>
          (let mc = map lower_char raw in
           Inr (if list_ex (str_contains mc) high_risk_categories
                then Rule_result True 0.7 (High_risk_merchant_category mc)
                else Rule_result False 0.1 Standard_merchant_category)))"

text \<open>\<open>FraudDetector._load_rules\<close>: the battery, each rule under its \<open>__name__\<close>.\<close>

definition load_rules :: "(string \<times> (transaction \<Rightarrow> py_error + rule_dict)) list" where
  "load_rules =
     [(''_amount_threshold_rule'', amount_threshold_rule),
      (''_velocity_rule'', velocity_rule),
      (''_location_rule'', location_rule),
      (''_time_pattern_rule'', time_pattern_rule),
      (''_merchant_risk_rule'', merchant_risk_rule)]"

text \<open>\<open>FraudDetector._run_rules\<close>: the inner \<open>try\<close> of the loop catches what a rule
  raises and stores the error dict under the rule's name.\<close>

definition run_rule :: "(transaction \<Rightarrow> py_error + rule_dict) \<Rightarrow> transaction \<Rightarrow> rule_dict" where
  "run_rule rule txn = (case rule txn of Inl e \<Rightarrow> Rule_error e | Inr r \<Rightarrow> r)"

fun run_rules_loop ::
  "(string \<times> (transaction \<Rightarrow> py_error + rule_dict)) list \<Rightarrow> transaction \<Rightarrow>
   (string \<times> rule_dict entry) list \<Rightarrow> (string \<times> rule_dict entry) list" where
  "run_rules_loop [] txn rule_results = rule_results"
| "run_rules_loop ((rule_name, rule) # rest) txn rule_results =
     run_rules_loop rest txn (dict_set rule_name (Dict (run_rule rule txn)) rule_results)"

definition run_rules ::
  "(string \<times> (transaction \<Rightarrow> py_error + rule_dict)) list \<Rightarrow> transaction \<Rightarrow>
   (string \<times> rule_dict entry) list" where
  "run_rules rules txn = run_rules_loop rules txn []"

section \<open>core/fraud\_detector.py: model inference\<close>

text \<open>
  A loaded model is an object with \<open>predict_proba\<close> (a classifier, returning a 2-D array)
  or with \<open>predict\<close> only (a regressor, returning a 1-D array); either call may raise.
  \<open>'f\<close> is the type of the preprocessed feature array.
\<close>

datatype 'f model =
    Proba_model "'f \<Rightarrow> py_error + real list list"
  | Predict_model "'f \<Rightarrow> py_error + real list"

datatype raw_output = Raw2 "real list list" | Raw1 "real list"

datatype ml_dict = Prediction real real raw_output | Pred_error py_error

text \<open>\<open>FraudDetector._predict_with_model\<close>: indexing an empty array raises
  \<open>IndexError\<close>, which the method's own \<open>except\<close> turns into the error dict.\<close>

fun predict_with_model :: "'f model \<Rightarrow> 'f \<Rightarrow> ml_dict" where
  "predict_with_model (Proba_model predict_proba) data =
     (case predict_proba data of
        Inl e \<Rightarrow> Pred_error e
      | Inr p \<Rightarrow>
          (case p of
             [] \<Rightarrow> Pred_error IndexError
           | row # _ \<Rightarrow>
               (if length row > 1 then Prediction (row ! 1) (row ! 1) (Raw2 p)
                else (case row of
                        [] \<Rightarrow> Pred_error IndexError
                      | x # _ \<Rightarrow> Prediction x x (Raw2 p)))))"
| "predict_with_model (Predict_model predict) data =
     (case predict data of
        Inl e \<Rightarrow> Pred_error e
      | Inr p \<Rightarrow>
          (case p of
             [] \<Rightarrow> Pred_error IndexError
           | x # _ \<Rightarrow> Prediction x 0.8 (Raw1 p)))"

text \<open>\<open>FraudDetector._run_ml_models\<close>: one entry per key of \<open>self.models\<close> (a dict, so
  the names are distinct), in its order.\<close>

definition run_ml_models :: "(string \<times> 'f model) list \<Rightarrow> 'f \<Rightarrow> (string \<times> ml_dict entry) list" where
  "run_ml_models models data = map (\<lambda>(model_name, m). (model_name, Dict (predict_with_model m data))) models"

section \<open>core/fraud\_detector.py: the ensemble combiner\<close>

record ensemble_result =
  res_fraud_probability :: real
  res_risk_score :: real
  res_confidence_score :: real
  res_is_fraud :: bool
  res_method :: string

text \<open>\<open>settings.FRAUD_THRESHOLD\<close> of config.py; the combiner reads the configured
  value, which is a parameter below.\<close>

definition FRAUD_THRESHOLD :: real where
  "FRAUD_THRESHOLD = 0.7"

text \<open>
  The first loop of \<open>_ensemble_predictions\<close>. For a dict, \<open>'error' not in pred\<close> asks for
  the key; for a string it is the substring test, and \<open>pred.get\<close> on a string raises
  \<open>AttributeError\<close>.
\<close>

fun collect_ml ::
  "(string \<times> ml_dict entry) list \<Rightarrow> real list \<times> real list \<Rightarrow> py_error + (real list \<times> real list)" where
  "collect_ml [] acc = Inr acc"
| "collect_ml ((model_name, Str s) # rest) acc =
     (if str_contains s ''error'' then collect_ml rest acc else Inl AttributeError)"
| "collect_ml ((model_name, Dict (Pred_error e)) # rest) acc = collect_ml rest acc"
| "collect_ml ((model_name, Dict (Prediction p c raw)) # rest) (ml_probs, ml_confidences) =
     collect_ml rest (ml_probs @ [p], ml_confidences @ [c])"

text \<open>The second loop: \<open>'error' not in pred and pred.get('triggered', False)\<close>.\<close>

fun collect_rules :: "(string \<times> rule_dict entry) list \<Rightarrow> real list \<Rightarrow> py_error + real list" where
  "collect_rules [] rule_scores = Inr rule_scores"
| "collect_rules ((rule_name, Str s) # rest) rule_scores =
     (if str_contains s ''error'' then collect_rules rest rule_scores else Inl AttributeError)"
| "collect_rules ((rule_name, Dict (Rule_error e)) # rest) rule_scores =
     collect_rules rest rule_scores"
| "collect_rules ((rule_name, Dict (Rule_result trig score why)) # rest) rule_scores =
     collect_rules rest (if trig then rule_scores @ [score] else rule_scores)"

text \<open>The body of the \<open>try\<close> block of \<open>_ensemble_predictions\<close>.\<close>

definition ensemble_try ::
  "real \<Rightarrow> (string \<times> ml_dict entry) list \<Rightarrow> (string \<times> rule_dict entry) list \<Rightarrow>
   py_error + ensemble_result" where
  "ensemble_try fraud_threshold ml_predictions rule_predictions =
     (case collect_ml ml_predictions ([], []) of
        Inl e \<Rightarrow> Inl e
      | Inr (ml_probs, ml_confidences) \<Rightarrow>
          (case collect_rules rule_predictions [] of
             Inl e \<Rightarrow> Inl e
           | Inr rule_scores \<Rightarrow>
               (let ml_fraud_prob = (if ml_probs \<noteq> [] then mean ml_probs else 0.5);
                    ml_confidence = (if ml_probs \<noteq> [] then mean ml_confidences else 0.5);
                    rule_risk_score = (if rule_scores \<noteq> [] then mean rule_scores else 0.1);
                    final_fraud_prob = 0.7 * ml_fraud_prob + 0.3 * rule_risk_score;
                    final_confidence = ml_confidence;
                    is_fraud = (final_fraud_prob > fraud_threshold)
                in Inr \<lparr>res_fraud_probability = final_fraud_prob,
                        res_risk_score = rule_risk_score,
                        res_confidence_score = final_confidence,
                        res_is_fraud = is_fraud,
                        res_method = ''ensemble''\<rparr>)))"

definition fallback_result :: ensemble_result where
  "fallback_result =
     \<lparr>res_fraud_probability = 0.5, res_risk_score = 0.5, res_confidence_score = 0.5,
      res_is_fraud = False, res_method = ''fallback''\<rparr>"

text \<open>\<open>FraudDetector._ensemble_predictions\<close>: the \<open>try\<close> with its \<open>except Exception\<close>.\<close>

definition ensemble_predictions ::
  "real \<Rightarrow> (string \<times> ml_dict entry) list \<Rightarrow> (string \<times> rule_dict entry) list \<Rightarrow> ensemble_result" where
  "ensemble_predictions fraud_threshold ml_predictions rule_predictions =
     (case ensemble_try fraud_threshold ml_predictions rule_predictions of
        Inl e \<Rightarrow> fallback_result
      | Inr r \<Rightarrow> r)"

section \<open>core/fraud\_detector.py: risk metrics\<close>

record risk_metrics =
  composite_risk_score :: real
  risk_factors :: "string list"
  risk_level :: string
  recommended_action :: string

text \<open>The three \<open>if\<close> statements that append to \<open>risk_factors\<close>, in their order.\<close>

definition enumerate_risk_factors :: "real \<Rightarrow> transaction \<Rightarrow> string list" where
  "enumerate_risk_factors a txn =
     (if a > 10000 then [''high_amount''] else []) @
     (if dict_get (latitude txn) = None then [''missing_location''] else []) @
     (if dict_get (ip_address txn) = None then [''missing_ip''] else [])"

section \<open>core/fraud\_detector.py: risk ladders\<close>

text \<open>\<open>FraudDetector._get_risk_level\<close> and \<open>FraudDetector._get_recommended_action\<close>.\<close>

definition get_risk_level :: "real \<Rightarrow> string" where
  "get_risk_level risk_score =
     (if risk_score \<ge> 0.8 then ''critical''
      else if risk_score \<ge> 0.6 then ''high''
      else if risk_score \<ge> 0.4 then ''medium''
      else ''low'')"

definition get_recommended_action :: "real \<Rightarrow> string" where
  "get_recommended_action risk_score =
     (if risk_score \<ge> 0.8 then ''block''
      else if risk_score \<ge> 0.6 then ''review''
      else if risk_score \<ge> 0.4 then ''monitor''
      else ''approve'')"

text \<open>
  \<open>FraudDetector._calculate_risk_metrics\<close>. The only statement of its \<open>try\<close> block that
  can raise is the conversion of the amount; the \<open>except\<close> branch returns fixed values.
  \<open>prediction\<close> always carries the key \<open>'fraud_probability'\<close>, so the default of
  \<open>prediction.get('fraud_probability', 0.5)\<close> is never taken.
\<close>

definition calculate_risk_metrics :: "ensemble_result \<Rightarrow> transaction \<Rightarrow> risk_metrics" where
  "calculate_risk_metrics prediction txn =
     (case float_amount txn of
        Inl e \<Rightarrow>
          \<lparr>composite_risk_score = 0.5, risk_factors = [''calculation_error''],
           risk_level = ''medium'', recommended_action = ''review''\<rparr>
      | Inr a \<Rightarrow>
          (let factors = enumerate_risk_factors a txn;
               base_risk = res_fraud_probability prediction;
               factor_multiplier = 1.0 + real (length factors) * 0.1;
               composite_risk = min 1.0 (base_risk * factor_multiplier)
           in \<lparr>composite_risk_score = composite_risk, risk_factors = factors,
               risk_level = get_risk_level composite_risk,
               recommended_action = get_recommended_action composite_risk\<rparr>))"

section \<open>core/fraud\_detector.py: the performance counter and the scoring call\<close>

record performance =
  prediction_count :: int
  avg_prediction_time :: real

text \<open>The state \<open>__init__\<close> sets.\<close>

definition fresh_detector :: performance where
  "fresh_detector = \<lparr>prediction_count = 0, avg_prediction_time = 0.0\<rparr>"

text \<open>\<open>FraudDetector._update_performance_metrics\<close>.\<close>

definition update_performance_metrics :: "performance \<Rightarrow> real \<Rightarrow> performance" where
  "update_performance_metrics st prediction_time =
     (let n = prediction_count st + 1
      in \<lparr>prediction_count = n,
          avg_prediction_time =
            (avg_prediction_time st * real_of_int (n - 1) + prediction_time) / real_of_int n\<rparr>)"

record detection_result =
  final_prediction :: ensemble_result
  ml_predictions :: "(string \<times> ml_dict entry) list"
  rule_predictions :: "(string \<times> rule_dict entry) list"
  metrics :: risk_metrics
  prediction_time_ms :: real

text \<open>
  The steps of \<open>detect_fraud\<close> after preprocessing: model inference, the rules, the
  combiner and the risk metrics. None of them raises.
\<close>

definition score ::
  "real \<Rightarrow> (string \<times> 'f model) list \<Rightarrow> (string \<times> (transaction \<Rightarrow> py_error + rule_dict)) list \<Rightarrow>
   'f \<Rightarrow> transaction \<Rightarrow> real \<Rightarrow> detection_result" where
  "score fraud_threshold models rules processed_data txn prediction_time =
     (let ml = run_ml_models models processed_data;
          rp = run_rules rules txn;
          fp = ensemble_predictions fraud_threshold ml rp
      in \<lparr>final_prediction = fp, ml_predictions = ml, rule_predictions = rp,
          metrics = calculate_risk_metrics fp txn,
          prediction_time_ms = prediction_time\<rparr>)"

text \<open>
  \<open>FraudDetector.detect_fraud\<close>, with the detector's counter passed in and returned.
  \<open>preprocess\<close> is \<open>_preprocess_transaction\<close> with the loaded preprocessor, which may
  raise; the exception is re-raised and the counter is left as it was. The prediction
  time is read from the clock, so it is an argument; \<open>record_prediction_time\<close> of
  utils/metrics.py only records it.
\<close>

definition detect_fraud ::
  "performance \<Rightarrow> real \<Rightarrow> (transaction \<Rightarrow> py_error + 'f) \<Rightarrow> (string \<times> 'f model) list \<Rightarrow>
   (string \<times> (transaction \<Rightarrow> py_error + rule_dict)) list \<Rightarrow> transaction \<Rightarrow> real \<Rightarrow>
   py_error + (detection_result \<times> performance)" where
  "detect_fraud st fraud_threshold preprocess models rules txn prediction_time =
     (case preprocess txn of
        Inl e \<Rightarrow> Inl e
      | Inr processed_data \<Rightarrow>
          Inr (score fraud_threshold models rules processed_data txn prediction_time,
               update_performance_metrics st prediction_time))"

text \<open>
  A run of scoring calls on one detector, each with its transaction and its measured
  prediction time. A call that raises leaves the counter as it was, and the detector
  serves the next call.
\<close>

fun serve ::
  "performance \<Rightarrow> real \<Rightarrow> (transaction \<Rightarrow> py_error + 'f) \<Rightarrow> (string \<times> 'f model) list \<Rightarrow>
   (string \<times> (transaction \<Rightarrow> py_error + rule_dict)) list \<Rightarrow> (transaction \<times> real) list \<Rightarrow>
   performance" where
  "serve st fraud_threshold preprocess models rules [] = st"
| "serve st fraud_threshold preprocess models rules ((txn, t) # calls) =
     (case detect_fraud st fraud_threshold preprocess models rules txn t of
        Inl e \<Rightarrow> serve st fraud_threshold preprocess models rules calls
      | Inr (res, st') \<Rightarrow> serve st' fraud_threshold preprocess models rules calls)"

text \<open>The prediction times of the calls of a run that succeed.\<close>

definition successful_times :: "(transaction \<Rightarrow> py_error + 'f) \<Rightarrow> (transaction \<times> real) list \<Rightarrow> real list" where
  "successful_times preprocess calls = [t. (txn, t) \<leftarrow> calls, \<not> isl (preprocess txn)]"

section \<open>models/autoencoder.py: the reconstruction-error threshold\<close>

text \<open>
  \<open>np.percentile(a, q)\<close> with the default linear interpolation: the value at position
  \<open>q / 100 * (n - 1)\<close> of the sorted array, interpolated between its two neighbours.
  A \<open>q\<close> outside [0, 100] raises \<open>ValueError\<close>. On the empty array numpy raises
  \<open>IndexError\<close> (older releases return \<open>NaN\<close> instead); no statement below rests on
  that case.
\<close>

definition np_percentile :: "real list \<Rightarrow> real \<Rightarrow> py_error + real" where
  "np_percentile a q =
     (if q < 0 \<or> q > 100 then Inl ValueError
      else if a = [] then Inl IndexError
      else (let s = sort a;
                pos = q / 100 * real (length a - 1);
                lo = nat \<lfloor>pos\<rfloor>;
                hi = min (lo + 1) (length a - 1)
            in Inr (s ! lo + (s ! hi - s ! lo) * (pos - real lo))))"

text \<open>
  What \<open>predict\<close> returns is a 2-D array (one reconstruction per sample) or a 1-D array
  (a regressor with a single output). \<open>X\<close> itself is the 2-D training array, a list of
  rows of one length; an array without rows is taken to have no columns.
\<close>

datatype ndarray = Array1 "real list" | Array2 "real list list"

fun rows_of :: "ndarray \<Rightarrow> real list list" where
  "rows_of (Array1 r) = [r]"
| "rows_of (Array2 rs) = rs"

definition width :: "real list list \<Rightarrow> nat" where
  "width A = (case A of [] \<Rightarrow> 0 | row # _ \<Rightarrow> length row)"

text \<open>
  numpy's broadcasting of one axis: equal lengths stay, an axis of length 1 is stretched
  to the other length, anything else raises \<open>ValueError\<close>. A 1-D array counts as a single
  row. \<open>stretch xs i\<close> reads entry \<open>i\<close> of an axis after stretching.
\<close>

definition broadcast_dim :: "nat \<Rightarrow> nat \<Rightarrow> nat option" where
  "broadcast_dim a b =
     (if a = b then Some a else if a = 1 then Some b else if b = 1 then Some a else None)"

definition stretch :: "'a list \<Rightarrow> nat \<Rightarrow> 'a" where
  "stretch xs i = (if length xs = 1 then xs ! 0 else xs ! i)"

text \<open>\<open>np.mean(np.square(X - X_reconstructed), axis=1)\<close>: the subtraction broadcasts
  both axes; then each row of the difference is squared and averaged. (The mean of a
  row without entries is \<open>NaN\<close> in numpy and is not meant by \<open>mean []\<close>.)\<close>

definition reconstruction_errors :: "real list list \<Rightarrow> ndarray \<Rightarrow> py_error + real list" where
  "reconstruction_errors X X_reconstructed =
     (let R = rows_of X_reconstructed
      in case broadcast_dim (length X) (length R) of
           None \<Rightarrow> Inl ValueError
         | Some h \<Rightarrow>
             (case broadcast_dim (width X) (width R) of
                None \<Rightarrow> Inl ValueError
              | Some w \<Rightarrow>
                  Inr (map (\<lambda>i. mean (map (\<lambda>j. (stretch (stretch X i) j -
                                                   stretch (stretch R i) j)\<^sup>2) [0 ..< w]))
                           [0 ..< h])))"

record autoencoder =
  threshold :: "real option"

text \<open>
  \<open>AutoencoderModel._calculate_threshold\<close>. \<open>predict\<close> is the model's own \<open>predict\<close>
  method (scaling followed by the network), which catches its exceptions and always
  returns an array. Whatever the \<open>try\<close> block raises, the threshold becomes 0.1.
\<close>

definition calculate_threshold ::
  "(real list list \<Rightarrow> ndarray) \<Rightarrow> autoencoder \<Rightarrow> real list list \<Rightarrow> autoencoder" where
  "calculate_threshold predict self X =
     (case reconstruction_errors X (predict X) of
        Inl e \<Rightarrow> self\<lparr>threshold := Some 0.1\<rparr>
      | Inr errors \<Rightarrow>
          (case np_percentile errors 95 of
             Inl e \<Rightarrow> self\<lparr>threshold := Some 0.1\<rparr>
           | Inr t \<Rightarrow> self\<lparr>threshold := Some t\<rparr>))"

text \<open>
  The threshold as the specification words it: \<open>calibrate_threshold(X_normal,
  contamination_rate)\<close> sets the contamination-rate-th percentile, 90 by default, of the
  per-sample reconstruction error (the mean over the features of the squared difference
  between the sample and its reconstruction). The training orchestrator asks for the same
  operation: trainer.py calls \<open>calculate_threshold(X_train_normal, contamination=0.1)\<close>.
\<close>

definition per_sample_error_spec :: "real list \<Rightarrow> real list \<Rightarrow> real" where
  "per_sample_error_spec x r = (\<Sum>i < length x. (x ! i - r ! i)\<^sup>2) / real (length x)"


definition calibrate_threshold_spec ::
  "(real list list \<Rightarrow> ndarray) \<Rightarrow> real list list \<Rightarrow> real \<Rightarrow> py_error + real" where
  "calibrate_threshold_spec predict X_normal contamination_rate =
     np_percentile
       (map (\<lambda>i. per_sample_error_spec (X_normal ! i) (rows_of (predict X_normal) ! i))
            [0 ..< length X_normal])
       contamination_rate"

text \<open>The reconstruction has the shape of \<open>X\<close>, a 2-D array of \<open>w\<close> columns.\<close>

definition same_shape :: "real list list \<Rightarrow> ndarray \<Rightarrow> bool" where
  "same_shape X X_reconstructed =
     (case X_reconstructed of
        Array1 r \<Rightarrow> False
      | Array2 R \<Rightarrow>
          length R = length X \<and>
          list_all (\<lambda>x. length x = width X) X \<and> list_all (\<lambda>r. length r = width X) R)"


definition single_zero_row :: "real list list \<Rightarrow> ndarray" where
  "single_zero_row X = Array2 [[0, 0]]"


definition two_by_two_sample :: "real list list" where
  "two_by_two_sample = [[1, 2], [3, 4]]"

section \<open>models/preprocessor.py: feature construction\<close>

text \<open>
  A row of the transaction frame. The \<open>timestamp\<close> column holds datetimes, kept as whole
  seconds since 1970-01-01 00:00; \<open>user_id\<close> and \<open>amount\<close> are present in every row;
  \<open>merchant\<close>, \<open>category\<close> and \<open>location\<close> may be missing (\<open>NaN\<close>), which is \<open>None\<close>.
\<close>

record raw_row =
  user_id :: string
  tx_timestamp :: int
  tx_amount :: real
  merchant :: "string option"
  category :: "string option"
  location :: "string option"

text \<open>A row of \<open>df_features\<close>: the raw columns and the columns \<open>create_features\<close> adds.
  \<open>merchant_frequency\<close> is \<open>NaN\<close> (\<open>None\<close>) for a missing merchant.\<close>

record feature_row =
  source_row :: raw_row
  hour :: int
  day_of_week :: int
  is_weekend :: int
  is_night :: int
  amount_log :: real
  amount_rounded :: int
  amount_mean :: real
  amount_std :: real
  amount_min :: real
  amount_max :: real
  amount_count :: nat
  merchant_nunique :: nat
  category_nunique :: nat
  merchant_frequency :: "nat option"
  merchant_rare :: int
  time_since_last :: real
  high_amount :: int
  velocity_risk :: int

text \<open>\<open>(cond).astype(int)\<close>.\<close>

definition as_int :: "bool \<Rightarrow> int" where
  "as_int b = (if b then 1 else 0)"

text \<open>The amounts of the rows of \<open>df\<close> that \<open>groupby('user_id')\<close> puts in the group of
  \<open>uid\<close>, and the distinct values present in a column of that group (\<open>nunique\<close> skips
  missing values).\<close>

definition group_amounts :: "raw_row list \<Rightarrow> string \<Rightarrow> real list" where
  "group_amounts df uid = map tx_amount (filter (\<lambda>x. user_id x = uid) df)"

definition group_nunique :: "(raw_row \<Rightarrow> string option) \<Rightarrow> raw_row list \<Rightarrow> string \<Rightarrow> nat" where
  "group_nunique col df uid =
     length (remdups (concat (map (\<lambda>x. case col x of None \<Rightarrow> [] | Some v \<Rightarrow> [v])
                                  (filter (\<lambda>x. user_id x = uid) df))))"

text \<open>The sample standard deviation (\<open>ddof = 1\<close>) pandas computes; it is \<open>NaN\<close> for a
  group of one row, which \<open>fillna(0)\<close> turns into 0.\<close>

definition sample_std :: "real list \<Rightarrow> real" where
  "sample_std xs =
     (if length xs < 2 then 0
      else sqrt (sum_list (map (\<lambda>x. (x - mean xs)\<^sup>2) xs) / real (length xs - 1)))"

definition list_min :: "real list \<Rightarrow> real" where
  "list_min xs = foldl min (hd xs) (tl xs)"

definition list_max :: "real list \<Rightarrow> real" where
  "list_max xs = foldl max (hd xs) (tl xs)"

text \<open>\<open>df['merchant'].value_counts()\<close> mapped back on the column.\<close>

definition merchant_count :: "raw_row list \<Rightarrow> string option \<Rightarrow> nat option" where
  "merchant_count df m =
     (case m of None \<Rightarrow> None
      | Some v \<Rightarrow> Some (length (filter (\<lambda>x. merchant x = Some v) df)))"

text \<open>
  \<open>groupby('user_id')['timestamp'].diff()\<close> on the frame sorted by user and time, in
  hours: the distance to the previous row when it belongs to the same user, and
  otherwise \<open>NaN\<close>, which \<open>fillna(24)\<close> turns into 24.
\<close>

fun time_since_last_column :: "raw_row option \<Rightarrow> raw_row list \<Rightarrow> real list" where
  "time_since_last_column prev [] = []"
| "time_since_last_column prev (r # rs) =
     (case prev of
        None \<Rightarrow> 24
      | Some p \<Rightarrow>
          (if user_id p = user_id r
           then real_of_int (tx_timestamp r - tx_timestamp p) / 3600
           else 24)) # time_since_last_column (Some r) rs"

text \<open>One row of the result of \<open>create_features\<close>: \<open>df\<close> is the whole incoming frame, from
  which the per-user statistics and the merchant counts are computed.\<close>

definition feature_row_of :: "raw_row list \<Rightarrow> raw_row \<Rightarrow> real \<Rightarrow> feature_row" where
  "feature_row_of df r since_last =
     (let h = (tx_timestamp r div 3600) mod 24;
          dow = (tx_timestamp r div 86400 + 3) mod 7;
          grp = group_amounts df (user_id r);
          freq = merchant_count df (merchant r)
      in \<lparr>source_row = r,
          hour = h,
          day_of_week = dow,
          is_weekend = as_int (dow = 5 \<or> dow = 6),
          is_night = as_int (h \<ge> 22 \<or> h \<le> 6),
          amount_log = ln (1 + tx_amount r),
          amount_rounded = as_int (tx_amount r = of_int \<lfloor>tx_amount r\<rfloor>),
          amount_mean = mean grp,
          amount_std = sample_std grp,
          amount_min = list_min grp,
          amount_max = list_max grp,
          amount_count = length grp,
          merchant_nunique = group_nunique merchant df (user_id r),
          category_nunique = group_nunique category df (user_id r),
          merchant_frequency = freq,
          merchant_rare = as_int (case freq of None \<Rightarrow> False | Some c \<Rightarrow> c < 5),
          time_since_last = since_last,
          high_amount = as_int (tx_amount r > mean grp + 2 * sample_std grp),
          velocity_risk = as_int (since_last < 1)\<rparr>)"

text \<open>\<open>TransactionPreprocessor.create_features\<close>. The frame it returns is sorted by
  \<open>['user_id', 'timestamp']\<close>, rows with equal keys keeping their order.\<close>

definition create_features :: "raw_row list \<Rightarrow> feature_row list" where
  "create_features df =
     (let sorted_df = sort_key (\<lambda>r. (user_id r, tx_timestamp r)) df
      in map (\<lambda>(r, since_last). feature_row_of df r since_last)
             (zip sorted_df (time_since_last_column None sorted_df)))"

section \<open>models/preprocessor.py: fit and transform\<close>

text \<open>A fitted \<open>RobustScaler\<close> (median and interquartile range of one column) and the
  state of a \<open>TransactionPreprocessor\<close>; a fitted \<open>LabelEncoder\<close> is its sorted list of
  classes.\<close>

record scaler =
  center :: real
  scale :: real

record preprocessor =
  scalers :: "(string \<times> scaler) list"
  encoders :: "(string \<times> string list) list"
  feature_names :: "string list"
  is_fitted :: bool

text \<open>\<open>TransactionPreprocessor.__init__\<close>.\<close>

definition new_preprocessor :: preprocessor where
  "new_preprocessor = \<lparr>scalers = [], encoders = [], feature_names = [], is_fitted = False\<rparr>"

definition numerical_features :: "string list" where
  "numerical_features =
     [''amount'', ''amount_log'', ''hour'', ''day_of_week'',
      ''amount_mean'', ''amount_std'', ''amount_min'', ''amount_max'',
      ''merchant_frequency'', ''time_since_last'']"

definition categorical_features :: "string list" where
  "categorical_features = [''merchant'', ''category'', ''location'']"

definition binary_features :: "string list" where
  "binary_features =
     [''is_weekend'', ''is_night'', ''amount_rounded'', ''merchant_rare'', ''high_amount'',
      ''velocity_risk'']"

text \<open>
  \<open>df_features[[feature]].fillna(0)\<close> for the columns \<open>fit\<close> stores scalers for; \<open>None\<close>
  for any other name, which the test \<open>feature in df_features.columns\<close> is taken to skip.
\<close>

definition numeric_column :: "string \<Rightarrow> feature_row \<Rightarrow> real option" where
  "numeric_column feature f =
     (if feature = ''amount'' then Some (tx_amount (source_row f))
      else if feature = ''amount_log'' then Some (amount_log f)
      else if feature = ''hour'' then Some (real_of_int (hour f))
      else if feature = ''day_of_week'' then Some (real_of_int (day_of_week f))
      else if feature = ''amount_mean'' then Some (amount_mean f)
      else if feature = ''amount_std'' then Some (amount_std f)
      else if feature = ''amount_min'' then Some (amount_min f)
      else if feature = ''amount_max'' then Some (amount_max f)
      else if feature = ''merchant_frequency''
        then Some (case merchant_frequency f of None \<Rightarrow> 0 | Some c \<Rightarrow> real c)
      else if feature = ''time_since_last'' then Some (time_since_last f)
      else None)"

text \<open>\<open>df_features[feature].fillna('unknown').astype(str)\<close> for the categorical
  columns.\<close>

definition categorical_column :: "string \<Rightarrow> feature_row \<Rightarrow> string option" where
  "categorical_column feature f =
     (let fill = (\<lambda>v. case v of None \<Rightarrow> ''unknown'' | Some s \<Rightarrow> s)
      in if feature = ''merchant'' then Some (fill (merchant (source_row f)))
         else if feature = ''category'' then Some (fill (category (source_row f)))
         else if feature = ''location'' then Some (fill (location (source_row f)))
         else None)"

definition binary_column :: "string \<Rightarrow> feature_row \<Rightarrow> int option" where
  "binary_column feature f =
     (if feature = ''is_weekend'' then Some (is_weekend f)
      else if feature = ''is_night'' then Some (is_night f)
      else if feature = ''amount_rounded'' then Some (amount_rounded f)
      else if feature = ''merchant_rare'' then Some (merchant_rare f)
      else if feature = ''high_amount'' then Some (high_amount f)
      else if feature = ''velocity_risk'' then Some (velocity_risk f)
      else None)"

text \<open>\<open>RobustScaler().fit\<close> on one column: the median and the distance between the 25th
  and the 75th percentile, a zero distance being replaced by 1. A column without rows is
  refused with \<open>ValueError\<close>.\<close>

definition robust_fit :: "real list \<Rightarrow> py_error + scaler" where
  "robust_fit col =
     (if col = [] then Inl ValueError
      else (case np_percentile col 50 of
              Inl e \<Rightarrow> Inl e
            | Inr med \<Rightarrow>
                (case np_percentile col 25 of
                   Inl e \<Rightarrow> Inl e
                 | Inr q25 \<Rightarrow>
                     (case np_percentile col 75 of
                        Inl e \<Rightarrow> Inl e
                      | Inr q75 \<Rightarrow>
                          Inr \<lparr>center = med,
                               scale = (if q75 - q25 = 0 then 1 else q75 - q25)\<rparr>))))"

text \<open>\<open>LabelEncoder().fit\<close>: the sorted distinct values; \<open>transform([val])[0]\<close>: the
  position of the value among them, \<open>ValueError\<close> for a value that is not there.\<close>

definition label_fit :: "string list \<Rightarrow> string list" where
  "label_fit vals = sort (remdups vals)"

fun label_index :: "string list \<Rightarrow> string \<Rightarrow> nat option" where
  "label_index [] v = None"
| "label_index (c # cs) v = (if c = v then Some 0 else map_option Suc (label_index cs v))"

definition label_transform :: "string list \<Rightarrow> string \<Rightarrow> py_error + nat" where
  "label_transform classes v =
     (case label_index classes v of None \<Rightarrow> Inl ValueError | Some i \<Rightarrow> Inr i)"

text \<open>The first loop of \<open>fit\<close>: one scaler per numerical feature, stored under its name.\<close>

fun fit_scalers ::
  "feature_row list \<Rightarrow> string list \<Rightarrow> (string \<times> scaler) list \<Rightarrow> py_error + (string \<times> scaler) list" where
  "fit_scalers feats [] acc = Inr acc"
| "fit_scalers feats (feature # rest) acc =
     (if list_all (\<lambda>f. numeric_column feature f \<noteq> None) feats
      then (case robust_fit (map (\<lambda>f. the (numeric_column feature f)) feats) of
              Inl e \<Rightarrow> Inl e
            | Inr s \<Rightarrow> fit_scalers feats rest (dict_set feature s acc))
      else fit_scalers feats rest acc)"

text \<open>The second loop of \<open>fit\<close>: one label encoder per categorical feature.\<close>

fun fit_encoders ::
  "feature_row list \<Rightarrow> string list \<Rightarrow> (string \<times> string list) list \<Rightarrow> (string \<times> string list) list" where
  "fit_encoders feats [] acc = acc"
| "fit_encoders feats (feature # rest) acc =
     (if list_all (\<lambda>f. categorical_column feature f \<noteq> None) feats
      then fit_encoders feats rest
             (dict_set feature (label_fit (map (\<lambda>f. the (categorical_column feature f)) feats)) acc)
      else fit_encoders feats rest acc)"

text \<open>\<open>TransactionPreprocessor.fit\<close>.\<close>

definition fit :: "preprocessor \<Rightarrow> raw_row list \<Rightarrow> py_error + preprocessor" where
  "fit self df =
     (let df_features = create_features df
      in case fit_scalers df_features numerical_features (scalers self) of
           Inl e \<Rightarrow> Inl e
         | Inr scs \<Rightarrow>
             Inr \<lparr>scalers = scs,
                  encoders = fit_encoders df_features categorical_features (encoders self),
                  feature_names =
                    numerical_features @ map (\<lambda>feat. feat @ ''_encoded'') categorical_features @
                    binary_features,
                  is_fitted = True\<rparr>)"

text \<open>The first loop of \<open>transform\<close>: \<open>scaler.transform\<close> subtracts the center and
  divides by the scale.\<close>

definition scaled_columns :: "(string \<times> scaler) list \<Rightarrow> feature_row list \<Rightarrow> real list list" where
  "scaled_columns scs feats =
     concat (map (\<lambda>(feature, s).
                    if list_all (\<lambda>f. numeric_column feature f \<noteq> None) feats
                    then [map (\<lambda>f. (the (numeric_column feature f) - center s) / scale s) feats]
                    else [])
                 scs)"

text \<open>
  The inner loop of the second loop of \<open>transform\<close>: a value the encoder does not know
  is encoded as \<open>'unknown'\<close>; when the encoder does not know \<open>'unknown'\<close> either, the
  \<open>ValueError\<close> of the second \<open>encoder.transform\<close> is raised inside the handler and
  leaves \<open>transform\<close>.
\<close>

definition encode_value :: "string list \<Rightarrow> string \<Rightarrow> py_error + nat" where
  "encode_value classes val =
     (case label_transform classes val of
        Inr i \<Rightarrow> Inr i
      | Inl e \<Rightarrow> label_transform classes ''unknown'')"

fun encode_values :: "string list \<Rightarrow> string list \<Rightarrow> py_error + real list" where
  "encode_values classes [] = Inr []"
| "encode_values classes (val # vals) =
     (case encode_value classes val of
        Inl e \<Rightarrow> Inl e
      | Inr i \<Rightarrow>
          (case encode_values classes vals of
             Inl e \<Rightarrow> Inl e
           | Inr encoded \<Rightarrow> Inr (real i # encoded)))"

fun encoded_columns ::
  "(string \<times> string list) list \<Rightarrow> feature_row list \<Rightarrow> py_error + real list list" where
  "encoded_columns [] feats = Inr []"
| "encoded_columns ((feature, classes) # rest) feats =
     (if list_all (\<lambda>f. categorical_column feature f \<noteq> None) feats
      then (case encode_values classes (map (\<lambda>f. the (categorical_column feature f)) feats) of
              Inl e \<Rightarrow> Inl e
            | Inr col \<Rightarrow>
                (case encoded_columns rest feats of
                   Inl e \<Rightarrow> Inl e
                 | Inr cols \<Rightarrow> Inr (col # cols)))
      else encoded_columns rest feats)"

definition binary_columns :: "feature_row list \<Rightarrow> real list list" where
  "binary_columns feats =
     map (\<lambda>feature. map (\<lambda>f. real_of_int (the (binary_column feature f))) feats) binary_features"

text \<open>\<open>np.column_stack\<close> of columns of \<open>n\<close> entries each: row \<open>i\<close> holds entry \<open>i\<close> of every
  column.\<close>

definition column_stack :: "nat \<Rightarrow> real list list \<Rightarrow> real list list" where
  "column_stack n cols = map (\<lambda>i. map (\<lambda>col. col ! i) cols) [0 ..< n]"

text \<open>\<open>TransactionPreprocessor.transform\<close>.\<close>

definition transform :: "preprocessor \<Rightarrow> raw_row list \<Rightarrow> py_error + real list list" where
  "transform self df =
     (if \<not> is_fitted self then Inl ValueError
      else (let df_features = create_features df
            in case encoded_columns (encoders self) df_features of
                 Inl e \<Rightarrow> Inl e
               | Inr encoded \<Rightarrow>
                   Inr (column_stack (length df_features)
                          (scaled_columns (scalers self) df_features @ encoded @
                           binary_columns df_features))))"

section \<open>The combiner as the specification words it\<close>

text \<open>
  The ML aggregate: the arithmetic mean of \<open>fraud_probability\<close> over the model
  predictions not marked error, 0.5 if none succeeded.
\<close>

definition ml_aggregate_spec :: "(string \<times> ml_dict entry) list \<Rightarrow> real" where
  "ml_aggregate_spec ml =
     (let ps = [p. (n, Dict (Prediction p c raw)) \<leftarrow> ml]
      in if ps = [] then 0.5 else sum_list ps / real (length ps))"

text \<open>
  The rule aggregate: the arithmetic mean of \<open>risk_score\<close> over the triggered,
  non-error rule results, 0.1 if none triggered.
\<close>

definition rule_aggregate_spec :: "(string \<times> rule_dict entry) list \<Rightarrow> real" where
  "rule_aggregate_spec rp =
     (let ss = [s. (n, Dict (Rule_result t s why)) \<leftarrow> rp, t]
      in if ss = [] then 0.1 else sum_list ss / real (length ss))"

text \<open>
  The composite risk score: the base fraud probability times one plus a tenth per risk
  factor, clamped to the closed interval from 0 to 1.
\<close>

definition composite_risk_spec :: "real \<Rightarrow> nat \<Rightarrow> real" where
  "composite_risk_spec base_fraud_probability n =
     max 0 (min 1 (base_fraud_probability * (1 + 0.1 * real n)))"

definition in_unit_interval :: "real \<Rightarrow> bool" where
  "in_unit_interval x = (0 \<le> x \<and> x \<le> 1)"

text \<open>Every probability and score field of a verdict lies between 0 and 1.\<close>

definition verdict_in_range :: "detection_result \<Rightarrow> bool" where
  "verdict_in_range v =
     (in_unit_interval (res_fraud_probability (final_prediction v)) \<and>
      in_unit_interval (res_risk_score (final_prediction v)) \<and>
      in_unit_interval (res_confidence_score (final_prediction v)) \<and>
      in_unit_interval (composite_risk_score (metrics v)))"

text \<open>What a model answered on the feature array, when it answered: its
  \<open>fraud_probability\<close> and \<open>confidence_score\<close> lie between 0 and 1.\<close>

fun prediction_in_range :: "ml_dict \<Rightarrow> bool" where
  "prediction_in_range (Prediction p c raw) = (in_unit_interval p \<and> in_unit_interval c)"
| "prediction_in_range (Pred_error e) = True"

text \<open>The risk score of a rule result lies between 0 and 1.\<close>

fun rule_dict_in_range :: "rule_dict \<Rightarrow> bool" where
  "rule_dict_in_range (Rule_result t s why) = in_unit_interval s"
| "rule_dict_in_range (Rule_error e) = True"

fun rule_entry_in_range :: "rule_dict entry \<Rightarrow> bool" where
  "rule_entry_in_range (Dict d) = rule_dict_in_range d"
| "rule_entry_in_range (Str s) = True"

definition models_in_range :: "(string \<times> 'f model) list \<Rightarrow> 'f \<Rightarrow> bool" where
  "models_in_range models data =
     list_all (\<lambda>(model_name, m). prediction_in_range (predict_with_model m data)) models"

text \<open>Every value of a result dict is itself a dict: what \<open>_run_ml_models\<close> and
  \<open>_run_rules\<close> build when their outer \<open>except\<close> is not taken.\<close>

definition all_dicts :: "(string \<times> 'd entry) list \<Rightarrow> bool" where
  "all_dicts d = list_all (\<lambda>(n, e). case e of Dict x \<Rightarrow> True | Str s \<Rightarrow> False) d"

section \<open>Sample inputs\<close>

text \<open>A regressor (an object with \<open>predict\<close> only) that answers \<open>v\<close> on every input, and
  a preprocessor that returns the empty feature array for every transaction.\<close>

definition constant_regressor :: "real \<Rightarrow> unit model" where
  "constant_regressor v = Predict_model (\<lambda>data. Inr [v])"

definition constant_classifier :: "real \<Rightarrow> unit model" where
  "constant_classifier p = Proba_model (\<lambda>data. Inr [[1 - p, p]])"

definition trivial_preprocess :: "transaction \<Rightarrow> py_error + unit" where
  "trivial_preprocess txn = Inr ()"

text \<open>A valid request: amount 50, coordinates, IP address, noon, category retail.\<close>

definition retail_purchase :: transaction where
  "retail_purchase =
     \<lparr>amount = Val 50, latitude = Val 40.7, longitude = Val (- 74),
      ip_address = Val ''10.0.0.1'', timestamp = Val (Datetime 12),
      merchant_category = Val ''retail''\<rparr>"

text \<open>A valid request that leaves the optional merchant category out: pydantic's
  \<open>dict()\<close> stores \<open>None\<close> under the key.\<close>

definition uncategorised_purchase :: transaction where
  "uncategorised_purchase =
     \<lparr>amount = Val 15000, latitude = Val 40.7, longitude = Val (- 74),
      ip_address = PyNone, timestamp = Val (Datetime 3),
      merchant_category = PyNone\<rparr>"

text \<open>Fitting a new preprocessor on a training corpus and transforming a frame that
  arrives later, at inference time.\<close>

definition transform_after_fit :: "raw_row list \<Rightarrow> raw_row list \<Rightarrow> py_error + real list list" where
  "transform_after_fit training df =
     (case fit new_preprocessor training of Inl e \<Rightarrow> Inl e | Inr p \<Rightarrow> transform p df)"

text \<open>Column \<open>k\<close> of a transformed frame.\<close>

definition feature_column :: "nat \<Rightarrow> real list list \<Rightarrow> real list" where
  "feature_column k rows = map (\<lambda>row. row ! k) rows"

text \<open>A training corpus of two users, with no missing value in any column.\<close>

definition training_frame :: "raw_row list" where
  "training_frame =
     [\<lparr>user_id = ''u1'', tx_timestamp = 1700000000, tx_amount = 100,
       merchant = Some ''amazon'', category = Some ''retail'', location = Some ''NY''\<rparr>,
      \<lparr>user_id = ''u2'', tx_timestamp = 1700003600, tx_amount = 300,
       merchant = Some ''walmart'', category = Some ''retail'', location = Some ''NY''\<rparr>]"

text \<open>Records of user \<open>u1\<close> arriving at inference time: two at known merchants, with
  different amounts, and one at a merchant the training corpus does not have.\<close>

definition small_purchase :: raw_row where
  "small_purchase =
     \<lparr>user_id = ''u1'', tx_timestamp = 1700100000, tx_amount = 10,
      merchant = Some ''amazon'', category = Some ''retail'', location = Some ''NY''\<rparr>"

definition large_purchase :: raw_row where
  "large_purchase =
     \<lparr>user_id = ''u1'', tx_timestamp = 1700100000, tx_amount = 500,
      merchant = Some ''amazon'', category = Some ''retail'', location = Some ''NY''\<rparr>"

definition unseen_merchant_purchase :: raw_row where
  "unseen_merchant_purchase =
     \<lparr>user_id = ''u1'', tx_timestamp = 1700100000, tx_amount = 10,
      merchant = Some ''ebay'', category = Some ''retail'', location = Some ''NY''\<rparr>"

section \<open>Theorems\<close>

text \<open>
  C9. For every composite risk score the risk level and the recommended action come from
  the same rung of one ladder: at least 0.8 gives (critical, block), from 0.6 up to 0.8
  gives (high, review), from 0.4 up to 0.6 gives (medium, monitor), and below 0.4 gives
  (low, approve). The statement holds for every real score, so in particular on [0, 1].
\<close>

theorem risk_ladders_lockstep:
  "(get_risk_level s, get_recommended_action s) =
     (if s \<ge> 0.8 then (''critical'', ''block'')
      else if 0.6 \<le> s \<and> s < 0.8 then (''high'', ''review'')
      else if 0.4 \<le> s \<and> s < 0.6 then (''medium'', ''monitor'')
      else (''low'', ''approve''))"
  by (simp add: get_risk_level_def get_recommended_action_def)

subsection \<open>The combiner\<close>

lemma collect_ml_dicts:
  "all_dicts ml \<Longrightarrow>
   collect_ml ml (ps, cs) =
     Inr (ps @ [p. (n, Dict (Prediction p c raw)) \<leftarrow> ml],
          cs @ [c. (n, Dict (Prediction p c raw)) \<leftarrow> ml])"
proof (induction ml "(ps, cs)" arbitrary: ps cs rule: collect_ml.induct)
  case 1 show ?case by simp
next
  case (2 model_name s rest) then show ?case by (simp add: all_dicts_def)
next
  case (3 model_name e rest) then show ?case by (simp add: all_dicts_def)
next
  case (4 model_name p c raw rest ps cs) then show ?case by (simp add: all_dicts_def)
qed

lemma collect_rules_dicts:
  "all_dicts rp \<Longrightarrow>
   collect_rules rp ss = Inr (ss @ [s. (n, Dict (Rule_result t s why)) \<leftarrow> rp, t])"
proof (induction rp ss rule: collect_rules.induct)
  case 1 show ?case by simp
next
  case (2 rule_name s rest ss) then show ?case by (simp add: all_dicts_def)
next
  case (3 rule_name e rest ss) then show ?case by (simp add: all_dicts_def)
next
  case (4 rule_name trig score why rest ss) then show ?case by (simp add: all_dicts_def)
qed

lemma all_dicts_run_ml_models: "all_dicts (run_ml_models models data)"
  by (induction models) (auto simp: all_dicts_def run_ml_models_def)

lemma all_dicts_dict_set: "all_dicts d \<Longrightarrow> all_dicts (dict_set k (Dict v) d)"
  by (induction d) (auto simp: all_dicts_def)

lemma all_dicts_run_rules_loop: "all_dicts acc \<Longrightarrow> all_dicts (run_rules_loop rules txn acc)"
  by (induction rules txn acc rule: run_rules_loop.induct) (auto simp: all_dicts_dict_set)

lemma all_dicts_run_rules: "all_dicts (run_rules rules txn)"
proof -
  have "all_dicts ([] :: (string \<times> rule_dict entry) list)" by (simp add: all_dicts_def)
  then show ?thesis by (simp add: run_rules_def all_dicts_run_rules_loop)
qed

lemma probs_confidences_empty:
  "([p. (n, Dict (Prediction p c raw)) \<leftarrow> ml] = []) =
   ([c. (n, Dict (Prediction p c raw)) \<leftarrow> (ml :: (string \<times> ml_dict entry) list)] = [])"
proof (induction ml)
  case Nil show ?case by simp
next
  case (Cons a ml)
  obtain n e where a: "a = (n, e)" by (cases a)
  show ?case using Cons by (cases e; simp add: a split: ml_dict.splits)
qed

text \<open>On result dicts whose values are all dicts the \<open>try\<close> block of the combiner
  does not raise, and its result is the weighted combination of the two aggregates.\<close>

lemma ensemble_try_dicts:
  assumes "all_dicts ml" and "all_dicts rp"
  shows "ensemble_try thr ml rp =
     Inr \<lparr>res_fraud_probability = 0.7 * ml_aggregate_spec ml + 0.3 * rule_aggregate_spec rp,
          res_risk_score = rule_aggregate_spec rp,
          res_confidence_score =
            (let cs = [c. (n, Dict (Prediction p c raw)) \<leftarrow> ml]
             in if cs = [] then 0.5 else mean cs),
          res_is_fraud = (0.7 * ml_aggregate_spec ml + 0.3 * rule_aggregate_spec rp > thr),
          res_method = ''ensemble''\<rparr>"
proof -
  let ?ps = "[p. (n, Dict (Prediction p c raw)) \<leftarrow> ml]"
  let ?cs = "[c. (n, Dict (Prediction p c raw)) \<leftarrow> ml]"
  let ?ss = "[s. (n, Dict (Rule_result t s why)) \<leftarrow> rp, t]"
  have m: "collect_ml ml ([], []) = Inr (?ps, ?cs)"
    using collect_ml_dicts[OF assms(1), of "[]" "[]"] by simp
  have r: "collect_rules rp [] = Inr ?ss"
    using collect_rules_dicts[OF assms(2), of "[]"] by simp
  have e: "(?ps = []) = (?cs = [])" by (rule probs_confidences_empty)
  show ?thesis
    unfolding ensemble_try_def m r ml_aggregate_spec_def rule_aggregate_spec_def mean_def Let_def
    using e by (simp del: concat_eq_Nil_conv)
qed

text \<open>
  C1. In every scoring call the combiner, run on what the models and the rules of the
  call returned, gives: fraud probability = 0.7 times the ML aggregate (the mean of
  \<open>fraud_probability\<close> over the predictions without error, 0.5 if there is none) plus 0.3
  times the rule aggregate (the mean of \<open>risk_score\<close> over the triggered rule results
  without error, 0.1 if there is none); and \<open>is_fraud\<close> is true exactly when that
  probability is strictly greater than the configured threshold, whose default is 0.7.
\<close>

theorem ensemble_combination:
  "res_fraud_probability
     (ensemble_predictions thr (run_ml_models models data) (run_rules rules txn)) =
   0.7 * ml_aggregate_spec (run_ml_models models data) +
   0.3 * rule_aggregate_spec (run_rules rules txn) \<and>
   res_is_fraud (ensemble_predictions thr (run_ml_models models data) (run_rules rules txn)) =
   (res_fraud_probability
      (ensemble_predictions thr (run_ml_models models data) (run_rules rules txn)) > thr) \<and>
   res_risk_score (ensemble_predictions thr (run_ml_models models data) (run_rules rules txn)) =
     rule_aggregate_spec (run_rules rules txn) \<and>
   res_method (ensemble_predictions thr (run_ml_models models data) (run_rules rules txn)) =
     ''ensemble'' \<and>
   FRAUD_THRESHOLD = 0.7"
  by (simp add: ensemble_predictions_def FRAUD_THRESHOLD_def
      ensemble_try_dicts[OF all_dicts_run_ml_models all_dicts_run_rules])

text \<open>
  C2. When the \<open>try\<close> block of the combiner raises, whatever the exception, the combiner
  returns the fixed fallback verdict: fraud probability 0.5, risk score 0.5, confidence
  0.5, not fraud, method "fallback".
\<close>

theorem ensemble_fallback:
  "ensemble_try thr ml rp = Inl e \<Longrightarrow>
   ensemble_predictions thr ml rp =
     \<lparr>res_fraud_probability = 0.5, res_risk_score = 0.5, res_confidence_score = 0.5,
      res_is_fraud = False, res_method = ''fallback''\<rparr>"
  by (simp add: ensemble_predictions_def fallback_result_def)

text \<open>A string stored under \<open>'error'\<close> that does not contain the word makes
  \<open>pred.get\<close> raise \<open>AttributeError\<close>; the combiner answers with the fallback.\<close>

theorem ensemble_fallback_witness:
  "ensemble_try FRAUD_THRESHOLD [(''error'', Str ''model registry unavailable'')] [] =
     Inl AttributeError \<and>
   ensemble_predictions FRAUD_THRESHOLD [(''error'', Str ''model registry unavailable'')] [] =
     \<lparr>res_fraud_probability = 0.5, res_risk_score = 0.5, res_confidence_score = 0.5,
      res_is_fraud = False, res_method = ''fallback''\<rparr>"
proof -
  have h: "ensemble_try FRAUD_THRESHOLD [(''error'', Str ''model registry unavailable'')] [] =
      Inl AttributeError"
    by (simp add: ensemble_try_def)
  show ?thesis using h ensemble_fallback[OF h] by simp
qed

subsection \<open>The rule battery\<close>

lemma map_fst_dict_set:
  "k \<notin> fst ` set d \<Longrightarrow> map fst (dict_set k v d) = map fst d @ [k]"
  by (induction d) auto

lemma map_of_dict_set: "map_of (dict_set k v d) = (map_of d)(k \<mapsto> v)"
  by (induction d) (auto simp: fun_eq_iff)

lemma run_rules_loop_keys:
  "distinct (map fst acc @ map fst rules) \<Longrightarrow>
   map fst (run_rules_loop rules txn acc) = map fst acc @ map fst rules"
proof (induction rules txn acc rule: run_rules_loop.induct)
  case (1 txn acc) show ?case by simp
next
  case (2 rule_name rule rest txn acc)
  have notin: "rule_name \<notin> fst ` set acc" using 2(2) by auto
  have "distinct (map fst (dict_set rule_name (Dict (run_rule rule txn)) acc) @ map fst rest)"
    using 2(2) notin by (simp add: map_fst_dict_set)
  from 2(1)[OF this] notin show ?case by (simp add: map_fst_dict_set)
qed

lemma run_rules_loop_lookup:
  "distinct (map fst rules) \<Longrightarrow> (name, rule) \<in> set rules \<Longrightarrow>
   map_of (run_rules_loop rules txn acc) name = Some (Dict (run_rule rule txn))"
proof (induction rules txn acc rule: run_rules_loop.induct)
  case (1 txn acc) then show ?case by simp
next
  case (2 rule_name r rest txn acc)
  show ?case
  proof (cases "(name, rule) \<in> set rest")
    case True
    then show ?thesis using 2 by simp
  next
    case False
    then have eq: "name = rule_name" "rule = r" using 2(3) by auto
    have "rule_name \<notin> fst ` set rest" using 2(2) by simp
    have keep: "\<And>acc'. rule_name \<notin> fst ` set rest \<Longrightarrow>
        map_of (run_rules_loop rest txn acc') rule_name = map_of acc' rule_name"
    proof -
      fix acc' show "rule_name \<notin> fst ` set rest \<Longrightarrow>
        map_of (run_rules_loop rest txn acc') rule_name = map_of acc' rule_name"
        by (induction rest txn acc' rule: run_rules_loop.induct) (auto simp: map_of_dict_set)
    qed
    show ?thesis using keep[OF \<open>rule_name \<notin> fst ` set rest\<close>] eq
      by (simp add: map_of_dict_set)
  qed
qed

text \<open>
  C4. In every scoring call each rule of the battery has its own entry in the rule
  results, under its own name and in the battery's order: the error entry when that rule
  raised, its result otherwise, whatever the other rules did. The scoring call carries
  these results and raises exactly when preprocessing raised, never because of a rule.
\<close>

theorem rule_isolation:
  assumes "distinct (map fst rules)" and "(name, rule) \<in> set rules"
  shows "map fst (run_rules rules txn) = map fst rules \<and>
         map_of (run_rules rules txn) name =
           Some (Dict (case rule txn of Inl e \<Rightarrow> Rule_error e | Inr r \<Rightarrow> r)) \<and>
         rule_predictions (score thr models rules data txn t) = run_rules rules txn \<and>
         isl (detect_fraud st thr preprocess models rules txn t) = isl (preprocess txn)"
  using run_rules_loop_keys[of "[]" rules txn] run_rules_loop_lookup[OF assms, of txn "[]"] assms(1)
  by (simp add: run_rules_def run_rule_def score_def detect_fraud_def Let_def split: sum.splits)

text \<open>A request without merchant category: \<open>None.lower()\<close> raises in the merchant
  rule, which gets the error entry; the amount rule's result is there all the same.\<close>

theorem rule_isolation_witness:
  "distinct (map fst load_rules) \<and>
   (''_merchant_risk_rule'', merchant_risk_rule) \<in> set load_rules \<and>
   (''_amount_threshold_rule'', amount_threshold_rule) \<in> set load_rules \<and>
   merchant_risk_rule uncategorised_purchase = Inl AttributeError \<and>
   map fst (run_rules load_rules uncategorised_purchase) =
     [''_amount_threshold_rule'', ''_velocity_rule'', ''_location_rule'',
      ''_time_pattern_rule'', ''_merchant_risk_rule''] \<and>
   map_of (run_rules load_rules uncategorised_purchase) ''_merchant_risk_rule'' =
     Some (Dict (Rule_error AttributeError)) \<and>
   map_of (run_rules load_rules uncategorised_purchase) ''_amount_threshold_rule'' =
     Some (Dict (Rule_result True 0.8 (High_amount 15000))) \<and>
   \<not> isl (detect_fraud fresh_detector FRAUD_THRESHOLD trivial_preprocess
            [(''regressor'', constant_regressor 0.5)] load_rules uncategorised_purchase 12)"
proof -
  have d: "distinct (map fst load_rules)" by (simp add: load_rules_def)
  have m: "(''_merchant_risk_rule'', merchant_risk_rule) \<in> set load_rules"
    by (simp add: load_rules_def)
  have a: "(''_amount_threshold_rule'', amount_threshold_rule) \<in> set load_rules"
    by (simp add: load_rules_def)
  have mr: "merchant_risk_rule uncategorised_purchase = Inl AttributeError"
    by (simp add: merchant_risk_rule_def uncategorised_purchase_def)
  have ar: "amount_threshold_rule uncategorised_purchase =
      Inr (Rule_result True 0.8 (High_amount 15000))"
    by (simp add: amount_threshold_rule_def float_amount_def uncategorised_purchase_def)
  have names: "map fst load_rules =
      [''_amount_threshold_rule'', ''_velocity_rule'', ''_location_rule'',
       ''_time_pattern_rule'', ''_merchant_risk_rule'']"
    by (simp add: load_rules_def)
  have p: "\<not> isl (trivial_preprocess uncategorised_purchase)"
    by (simp add: trivial_preprocess_def)
  show ?thesis
    using d m a mr names p
      rule_isolation[OF d m, of uncategorised_purchase FRAUD_THRESHOLD
        "[(''regressor'', constant_regressor 0.5)]" "()" 12 fresh_detector trivial_preprocess]
      rule_isolation[OF d a, of uncategorised_purchase FRAUD_THRESHOLD
        "[(''regressor'', constant_regressor 0.5)]" "()" 12 fresh_detector trivial_preprocess]
    by (simp add: mr ar)
qed

subsection \<open>The performance counter\<close>

lemma update_count: "prediction_count (update_performance_metrics st t) = prediction_count st + 1"
  by (simp add: update_performance_metrics_def Let_def)

lemma update_total:
  assumes "0 \<le> prediction_count st"
  shows "avg_prediction_time (update_performance_metrics st t) *
           real_of_int (prediction_count (update_performance_metrics st t)) =
         avg_prediction_time st * real_of_int (prediction_count st) + t"
proof -
  have "real_of_int (prediction_count st + 1) \<noteq> 0" using assms by linarith
  then show ?thesis by (simp add: update_performance_metrics_def Let_def)
qed

lemma serve_count:
  "prediction_count (serve st thr pre models rules calls) =
     prediction_count st + int (length (successful_times pre calls))"
proof (induction st thr pre models rules calls rule: serve.induct)
  case (1 st thr pre models rules)
  show ?case by (simp add: successful_times_def)
next
  case (2 st thr pre models rules txn t calls)
  show ?case
  proof (cases "pre txn")
    case (Inl e)
    then have d: "detect_fraud st thr pre models rules txn t = Inl e"
      by (simp add: detect_fraud_def)
    have s: "successful_times pre ((txn, t) # calls) = successful_times pre calls"
      using Inl by (simp add: successful_times_def)
    show ?thesis using 2(1)[OF d] by (simp add: d s)
  next
    case (Inr data)
    let ?st' = "update_performance_metrics st t"
    have d: "detect_fraud st thr pre models rules txn t =
        Inr (score thr models rules data txn t, ?st')"
      using Inr by (simp add: detect_fraud_def)
    have s: "successful_times pre ((txn, t) # calls) = t # successful_times pre calls"
      using Inr by (simp add: successful_times_def)
    from 2(2)[OF d refl] show ?thesis by (simp add: d s update_count)
  qed
qed

lemma serve_total:
  "0 \<le> prediction_count st \<Longrightarrow>
   avg_prediction_time (serve st thr pre models rules calls) *
     real_of_int (prediction_count (serve st thr pre models rules calls)) =
     avg_prediction_time st * real_of_int (prediction_count st) +
     sum_list (successful_times pre calls)"
proof (induction st thr pre models rules calls rule: serve.induct)
  case (1 st thr pre models rules)
  show ?case by (simp add: successful_times_def)
next
  case (2 st thr pre models rules txn t calls)
  show ?case
  proof (cases "pre txn")
    case (Inl e)
    then have d: "detect_fraud st thr pre models rules txn t = Inl e"
      by (simp add: detect_fraud_def)
    have s: "successful_times pre ((txn, t) # calls) = successful_times pre calls"
      using Inl by (simp add: successful_times_def)
    have sv: "serve st thr pre models rules ((txn, t) # calls) = serve st thr pre models rules calls"
      by (simp add: d)
    show ?thesis unfolding sv s by (rule 2(1)[OF d 2(3)])
  next
    case (Inr data)
    let ?st' = "update_performance_metrics st t"
    have d: "detect_fraud st thr pre models rules txn t =
        Inr (score thr models rules data txn t, ?st')"
      using Inr by (simp add: detect_fraud_def)
    have s: "successful_times pre ((txn, t) # calls) = t # successful_times pre calls"
      using Inr by (simp add: successful_times_def)
    have sv: "serve st thr pre models rules ((txn, t) # calls) = serve ?st' thr pre models rules calls"
      by (simp add: d)
    have nn: "0 \<le> prediction_count ?st'" using 2(3) by (simp add: update_count)
    have "avg_prediction_time (serve ?st' thr pre models rules calls) *
        real_of_int (prediction_count (serve ?st' thr pre models rules calls)) =
        avg_prediction_time ?st' * real_of_int (prediction_count ?st') +
        sum_list (successful_times pre calls)"
      by (rule 2(2)[OF d refl nn])
    also have "\<dots> = avg_prediction_time st * real_of_int (prediction_count st) + t +
        sum_list (successful_times pre calls)"
      by (simp only: update_total[OF 2(3)])
    finally show ?thesis unfolding sv s by simp
  qed
qed

lemma serve_nothing:
  "successful_times pre calls = [] \<Longrightarrow> serve st thr pre models rules calls = st"
  by (induction st thr pre models rules calls rule: serve.induct)
     (auto simp: successful_times_def detect_fraud_def split: sum.splits)

text \<open>
  C10. A scoring call that succeeds returns the counter updated once, and the update adds
  exactly 1 to \<open>prediction_count\<close>. After any run of calls on a fresh detector,
  \<open>prediction_count\<close> is the number of calls that succeeded and \<open>avg_prediction_time\<close>
  is the arithmetic mean of their prediction times (0.0 when none succeeded yet).
\<close>

theorem performance_counter:
  "prediction_count (update_performance_metrics st t) = prediction_count st + 1 \<and>
   detect_fraud st thr pre models rules txn t =
     (case pre txn of
        Inl e \<Rightarrow> Inl e
      | Inr d \<Rightarrow> Inr (score thr models rules d txn t, update_performance_metrics st t)) \<and>
   prediction_count (serve fresh_detector thr pre models rules calls) =
     int (length (successful_times pre calls)) \<and>
   avg_prediction_time (serve fresh_detector thr pre models rules calls) =
     (if successful_times pre calls = [] then 0
      else sum_list (successful_times pre calls) / real (length (successful_times pre calls)))"
proof -
  let ?ts = "successful_times pre calls"
  let ?s = "serve fresh_detector thr pre models rules calls"
  have cnt: "prediction_count ?s = int (length ?ts)"
    using serve_count[of fresh_detector thr pre models rules calls]
    by (simp add: fresh_detector_def)
  have "avg_prediction_time ?s * real_of_int (prediction_count ?s) = sum_list ?ts"
    using serve_total[of fresh_detector thr pre models rules calls]
    by (simp add: fresh_detector_def)
  then have tot: "avg_prediction_time ?s * real (length ?ts) = sum_list ?ts"
    unfolding cnt by simp
  have avg: "avg_prediction_time ?s = (if ?ts = [] then 0 else sum_list ?ts / real (length ?ts))"
  proof (cases "?ts = []")
    case True
    from serve_nothing[OF True, of fresh_detector thr models rules] True
    show ?thesis by (simp add: fresh_detector_def)
  next
    case False
    then have "real (length ?ts) \<noteq> 0" by simp
    then have "avg_prediction_time ?s = sum_list ?ts / real (length ?ts)"
      using tot by (simp add: field_simps)
    then show ?thesis using False by simp
  qed
  show ?thesis using cnt avg by (simp add: update_count detect_fraud_def)
qed

subsection \<open>Ranges of the verdict's fields\<close>

lemma sum_list_bounds:
  "list_all in_unit_interval xs \<Longrightarrow> 0 \<le> sum_list xs \<and> sum_list xs \<le> real (length xs)"
  by (induction xs) (auto simp: in_unit_interval_def)

lemma mean_in_range:
  assumes "xs \<noteq> []" and "list_all in_unit_interval xs"
  shows "in_unit_interval (sum_list xs / real (length xs))"
proof -
  have pos: "0 < real (length xs)" using assms(1) by simp
  from sum_list_bounds[OF assms(2)] pos show ?thesis
    by (simp add: in_unit_interval_def field_simps)
qed

lemma probs_in_range:
  "models_in_range models data \<Longrightarrow>
   list_all in_unit_interval [p. (n, Dict (Prediction p c raw)) \<leftarrow> run_ml_models models data] \<and>
   list_all in_unit_interval [c. (n, Dict (Prediction p c raw)) \<leftarrow> run_ml_models models data]"
proof (induction models)
  case Nil show ?case by (simp add: run_ml_models_def)
next
  case (Cons a models)
  obtain n m where a: "a = (n, m)" by (cases a)
  from Cons.prems have h: "prediction_in_range (predict_with_model m data)"
    and t: "models_in_range models data"
    by (simp_all add: models_in_range_def a)
  from Cons.IH[OF t] h show ?case
    by (cases "predict_with_model m data") (simp_all add: run_ml_models_def a)
qed

lemma ml_aggregate_in_range:
  "models_in_range models data \<Longrightarrow> in_unit_interval (ml_aggregate_spec (run_ml_models models data))"
  using probs_in_range[of models data] mean_in_range
  by (auto simp: ml_aggregate_spec_def Let_def in_unit_interval_def simp del: concat_eq_Nil_conv)

lemma dict_set_in_range:
  "list_all (\<lambda>(n, e). rule_entry_in_range e) d \<Longrightarrow> rule_entry_in_range v \<Longrightarrow>
   list_all (\<lambda>(n, e). rule_entry_in_range e) (dict_set k v d)"
  by (induction d) auto

lemma run_rules_loop_in_range:
  "list_all (\<lambda>(n, r). rule_dict_in_range (run_rule r txn)) rules \<Longrightarrow>
   list_all (\<lambda>(n, e). rule_entry_in_range e) acc \<Longrightarrow>
   list_all (\<lambda>(n, e). rule_entry_in_range e) (run_rules_loop rules txn acc)"
  by (induction rules txn acc rule: run_rules_loop.induct) (auto simp: dict_set_in_range)

lemma scores_in_range:
  "list_all (\<lambda>(n, e). rule_entry_in_range e) rp \<Longrightarrow>
   list_all in_unit_interval [s. (n, Dict (Rule_result t s why)) \<leftarrow> rp, t]"
proof (induction rp)
  case Nil show ?case by simp
next
  case (Cons a rp)
  obtain n e where a: "a = (n, e)" by (cases a)
  show ?case
  proof (cases e)
    case (Str s)
    then show ?thesis using Cons by (simp add: a)
  next
    case (Dict d)
    then show ?thesis using Cons by (cases d) (simp_all add: a)
  qed
qed

lemma load_rules_in_range:
  "list_all (\<lambda>(n, r). rule_dict_in_range (run_rule r txn)) load_rules"
proof -
  have 1: "rule_dict_in_range (run_rule amount_threshold_rule txn)"
    by (simp add: run_rule_def amount_threshold_rule_def in_unit_interval_def split: sum.splits)
  have 2: "rule_dict_in_range (run_rule velocity_rule txn)"
    by (simp add: run_rule_def velocity_rule_def in_unit_interval_def)
  have 3: "rule_dict_in_range (run_rule location_rule txn)"
    by (simp add: run_rule_def location_rule_def in_unit_interval_def split: option.splits)
  have 4: "rule_dict_in_range (run_rule time_pattern_rule txn)"
    by (simp add: run_rule_def time_pattern_rule_def unusual_hours_def in_unit_interval_def
        split: option.splits timestamp.splits)
  have 5: "rule_dict_in_range (run_rule merchant_risk_rule txn)"
    by (simp add: run_rule_def merchant_risk_rule_def in_unit_interval_def Let_def
        split: option.splits)
  show ?thesis using 1 2 3 4 5 by (simp add: load_rules_def)
qed

lemma rule_aggregate_in_range:
  "in_unit_interval (rule_aggregate_spec (run_rules load_rules txn))"
proof -
  have "list_all (\<lambda>(n, e). rule_entry_in_range e) (run_rules load_rules txn)"
    unfolding run_rules_def by (rule run_rules_loop_in_range[OF load_rules_in_range]) simp
  from scores_in_range[OF this] mean_in_range show ?thesis
    by (auto simp: rule_aggregate_spec_def Let_def in_unit_interval_def simp del: concat_eq_Nil_conv)
qed


lemma confidence_in_range:
  assumes "models_in_range models data"
  shows "in_unit_interval
     (let cs = [c. (n, Dict (Prediction p c raw)) \<leftarrow> run_ml_models models data]
      in if cs = [] then 0.5 else mean cs)"
  using probs_in_range[OF assms] mean_in_range
  by (auto simp: Let_def mean_def in_unit_interval_def simp del: concat_eq_Nil_conv)

lemma composite_in_range:
  assumes "in_unit_interval (res_fraud_probability p)"
  shows "in_unit_interval (composite_risk_score (calculate_risk_metrics p txn))"
proof (cases "float_amount txn")
  case (Inl e)
  then show ?thesis by (simp add: calculate_risk_metrics_def in_unit_interval_def)
next
  case (Inr a)
  have "0 \<le> res_fraud_probability p * (1 + real (length (enumerate_risk_factors a txn)) * 0.1)"
    using assms by (simp add: in_unit_interval_def)
  then show ?thesis using Inr
    by (simp add: calculate_risk_metrics_def in_unit_interval_def Let_def)
qed

lemma weighted_in_range:
  "in_unit_interval x \<Longrightarrow> in_unit_interval y \<Longrightarrow> in_unit_interval (0.7 * x + 0.3 * y)"
  by (simp add: in_unit_interval_def)

text \<open>The scoring call on the sample retail purchase with one regressor that answers
  \<open>v\<close>: no rule triggers, so the rule aggregate is 0.1 and the fraud probability is
  \<open>0.7 v + 0.03\<close>.\<close>

lemma rules_retail:
  "run_rules load_rules retail_purchase =
    [(''_amount_threshold_rule'', Dict (Rule_result False 0.1 Amount_within_normal_range)),
     (''_velocity_rule'', Dict (Rule_result False 0.2 Velocity_check_passed)),
     (''_location_rule'', Dict (Rule_result False 0.1 Location_data_valid)),
     (''_time_pattern_rule'', Dict (Rule_result False 0.1 Normal_time_pattern)),
     (''_merchant_risk_rule'', Dict (Rule_result False 0.1 Standard_merchant_category))]"
  by (simp add: run_rules_def load_rules_def run_rule_def retail_purchase_def
     amount_threshold_rule_def velocity_rule_def location_rule_def time_pattern_rule_def
     merchant_risk_rule_def float_amount_def unusual_hours_def high_risk_categories_def lower_char_def)

lemma final_regressor:
  "final_prediction (score FRAUD_THRESHOLD [(''regressor'', constant_regressor v)] load_rules ()
      retail_purchase 12) =
   \<lparr>res_fraud_probability = 0.7 * v + 0.03, res_risk_score = 0.1, res_confidence_score = 0.8,
    res_is_fraud = (0.7 * v + 0.03 > FRAUD_THRESHOLD), res_method = ''ensemble''\<rparr>"
  by (simp add: score_def rules_retail run_ml_models_def constant_regressor_def
      ensemble_predictions_def ensemble_try_def mean_def Let_def)

lemma metrics_regressor:
  "metrics (score FRAUD_THRESHOLD [(''regressor'', constant_regressor v)] load_rules ()
      retail_purchase 12) =
   calculate_risk_metrics
     \<lparr>res_fraud_probability = 0.7 * v + 0.03, res_risk_score = 0.1, res_confidence_score = 0.8,
      res_is_fraud = (0.7 * v + 0.03 > FRAUD_THRESHOLD), res_method = ''ensemble''\<rparr>
     retail_purchase"
  by (simp add: score_def rules_retail run_ml_models_def constant_regressor_def
      ensemble_predictions_def ensemble_try_def mean_def Let_def)

lemma risk_factors_retail: "enumerate_risk_factors 50 retail_purchase = []"
  by (simp add: enumerate_risk_factors_def retail_purchase_def)

text \<open>The steps after preprocessing keep every field between 0 and 1 when the models
  do.\<close>

lemma score_fields_in_range:
  assumes "models_in_range models data"
  shows "verdict_in_range (score thr models load_rules data txn t)"
proof -
  let ?ml = "run_ml_models models data"
  let ?rp = "run_rules load_rules txn"
  have e: "ensemble_predictions thr ?ml ?rp =
     \<lparr>res_fraud_probability = 0.7 * ml_aggregate_spec ?ml + 0.3 * rule_aggregate_spec ?rp,
      res_risk_score = rule_aggregate_spec ?rp,
      res_confidence_score =
        (let cs = [c. (n, Dict (Prediction p c raw)) \<leftarrow> ?ml] in if cs = [] then 0.5 else mean cs),
      res_is_fraud = (0.7 * ml_aggregate_spec ?ml + 0.3 * rule_aggregate_spec ?rp > thr),
      res_method = ''ensemble''\<rparr>"
    by (simp add: ensemble_predictions_def
        ensemble_try_dicts[OF all_dicts_run_ml_models all_dicts_run_rules])
  have fp: "in_unit_interval (res_fraud_probability (ensemble_predictions thr ?ml ?rp))"
    unfolding e using weighted_in_range[OF ml_aggregate_in_range[OF assms] rule_aggregate_in_range[of txn]]
    by simp
  have rs: "in_unit_interval (res_risk_score (ensemble_predictions thr ?ml ?rp))"
    unfolding e using rule_aggregate_in_range[of txn] by simp
  have cf: "in_unit_interval (res_confidence_score (ensemble_predictions thr ?ml ?rp))"
    unfolding e using confidence_in_range[OF assms] by simp
  show ?thesis
    unfolding verdict_in_range_def score_def Let_def
    using fp rs cf composite_in_range[OF fp, of txn] by simp
qed

text \<open>An exception of preprocessing leaves \<open>detect_fraud\<close> as it is: no verdict is
  returned.\<close>

lemma detect_fraud_reraises:
  "preprocess txn = Inl e \<Longrightarrow> detect_fraud st thr preprocess models rules txn t = Inl e"
  by (simp add: detect_fraud_def)

text \<open>
  C3, as stated, fails: the combiner does not bound what a model returns. On a valid
  purchase of 50 that preprocessing accepts, a regressor that answers 1.5 gives the
  verdict of the scoring call the fraud probability 1.08.
\<close>

theorem score_in_range_counterexample:
  "detect_fraud fresh_detector FRAUD_THRESHOLD trivial_preprocess
     [(''regressor'', constant_regressor 1.5)] load_rules retail_purchase 12 =
     Inr (score FRAUD_THRESHOLD [(''regressor'', constant_regressor 1.5)] load_rules ()
            retail_purchase 12,
          update_performance_metrics fresh_detector 12) \<and>
   \<not> verdict_in_range
      (score FRAUD_THRESHOLD [(''regressor'', constant_regressor 1.5)] load_rules ()
         retail_purchase 12)"
  by (simp add: verdict_in_range_def final_regressor in_unit_interval_def detect_fraud_def
      trivial_preprocess_def)

text \<open>
  C3, amended. For every transaction on which preprocessing does not raise (so for
  every valid one with a positive amount that preprocessing accepts), provided every
  model prediction that succeeded in the call has its \<open>fraud_probability\<close> and
  \<open>confidence_score\<close> between 0 and 1, the scoring call returns a verdict whose fraud
  probability, risk score, confidence score and composite risk score all lie between 0
  and 1.
\<close>

theorem scoring_call_in_range:
  assumes "preprocess txn = Inr data" and "models_in_range models data"
  shows "\<exists>v st'. detect_fraud st thr preprocess models load_rules txn t = Inr (v, st') \<and>
                 verdict_in_range v"
  using assms(1) score_fields_in_range[OF assms(2), of thr txn t]
  by (simp add: detect_fraud_def)

theorem scoring_call_in_range_witness:
  "trivial_preprocess uncategorised_purchase = Inr () \<and>
   models_in_range [(''classifier'', constant_classifier 0.9)] () \<and>
   (\<exists>v st'. detect_fraud fresh_detector FRAUD_THRESHOLD trivial_preprocess
              [(''classifier'', constant_classifier 0.9)] load_rules uncategorised_purchase 12 =
              Inr (v, st') \<and>
            verdict_in_range v)"
proof -
  have p: "trivial_preprocess uncategorised_purchase = Inr ()"
    by (simp add: trivial_preprocess_def)
  have h: "models_in_range [(''classifier'', constant_classifier 0.9)] ()"
    by (simp add: models_in_range_def constant_classifier_def in_unit_interval_def)
  show ?thesis
    using p h
      scoring_call_in_range[where preprocess = trivial_preprocess
        and txn = uncategorised_purchase and data = "()"
        and models = "[(''classifier'', constant_classifier 0.9)]"
        and st = fresh_detector and thr = FRAUD_THRESHOLD and t = 12, OF p h]
    by simp
qed

subsection \<open>The composite risk score\<close>

text \<open>
  Whenever the amount of the transaction converts to a number, the composite risk score
  is the smaller of 1 and base fraud probability times (1 + 0.1 times the number of risk
  factors): for a base probability of at least 0 that is the product clamped to [0, 1],
  for a negative one it stays negative. The risk factors are exactly: amount above
  10,000, latitude absent or \<open>None\<close>, and IP address absent or \<open>None\<close>, each listed once.
\<close>

lemma composite_risk_formula:
  assumes "float_amount txn = Inr a"
  shows
    "composite_risk_score (calculate_risk_metrics p txn) =
       min 1 (res_fraud_probability p *
              (1 + 0.1 * real (length (risk_factors (calculate_risk_metrics p txn))))) \<and>
     (if 0 \<le> res_fraud_probability p
      then composite_risk_score (calculate_risk_metrics p txn) =
             composite_risk_spec (res_fraud_probability p)
               (length (risk_factors (calculate_risk_metrics p txn)))
      else composite_risk_score (calculate_risk_metrics p txn) < 0) \<and>
     (''high_amount'' \<in> set (risk_factors (calculate_risk_metrics p txn))) = (a > 10000) \<and>
     (''missing_location'' \<in> set (risk_factors (calculate_risk_metrics p txn))) =
       (dict_get (latitude txn) = None) \<and>
     (''missing_ip'' \<in> set (risk_factors (calculate_risk_metrics p txn))) =
       (dict_get (ip_address txn) = None) \<and>
     set (risk_factors (calculate_risk_metrics p txn)) \<subseteq>
       {''high_amount'', ''missing_location'', ''missing_ip''} \<and>
     distinct (risk_factors (calculate_risk_metrics p txn))"
proof -
  let ?f = "enumerate_risk_factors a txn"
  let ?m = "1 + 0.1 * real (length ?f)"
  have rf: "risk_factors (calculate_risk_metrics p txn) = ?f"
    using assms by (simp add: calculate_risk_metrics_def Let_def)
  have c: "composite_risk_score (calculate_risk_metrics p txn) =
      min 1 (res_fraud_probability p * ?m)"
    using assms by (simp add: calculate_risk_metrics_def Let_def)
  have mpos: "0 < ?m" by (simp add: add_pos_nonneg)
  have sgn: "if 0 \<le> res_fraud_probability p
      then min 1 (res_fraud_probability p * ?m) = composite_risk_spec (res_fraud_probability p) (length ?f)
      else min 1 (res_fraud_probability p * ?m) < 0"
  proof (cases "0 \<le> res_fraud_probability p")
    case True
    then have "0 \<le> res_fraud_probability p * ?m" using mpos by simp
    then show ?thesis using True by (simp add: composite_risk_spec_def)
  next
    case False
    then have "res_fraud_probability p * ?m < 0" using mpos by (simp add: mult_less_0_iff)
    then show ?thesis using False by simp
  qed
  have f1: "(''high_amount'' \<in> set ?f) = (a > 10000)"
    by (simp add: enumerate_risk_factors_def)
  have f2: "(''missing_location'' \<in> set ?f) = (dict_get (latitude txn) = None)"
    by (simp add: enumerate_risk_factors_def)
  have f3: "(''missing_ip'' \<in> set ?f) = (dict_get (ip_address txn) = None)"
    by (simp add: enumerate_risk_factors_def)
  have f4: "set ?f \<subseteq> {''high_amount'', ''missing_location'', ''missing_ip''}"
    by (auto simp: enumerate_risk_factors_def)
  have f5: "distinct ?f" by (auto simp: enumerate_risk_factors_def)
  show ?thesis unfolding rf c using sgn f1 f2 f3 f4 f5 by simp
qed

text \<open>
  C8. The composite risk score is meant to be the base fraud probability times (1 + 0.1
  times the number of risk factors), clamped to [0, 1]. The code caps the product at 1
  with \<open>min\<close> and misses the bound at 0: with a regressor that answers -1 on the sample
  purchase the base probability is -0.67, there is no risk factor, and the composite
  score the scoring call returns is -0.67, where the clamp gives 0.
\<close>

theorem composite_risk_not_clamped_below:
  "res_fraud_probability
     (final_prediction (score FRAUD_THRESHOLD [(''regressor'', constant_regressor (- 1))]
        load_rules () retail_purchase 12)) = - 0.67 \<and>
   risk_factors
     (metrics (score FRAUD_THRESHOLD [(''regressor'', constant_regressor (- 1))] load_rules ()
        retail_purchase 12)) = [] \<and>
   composite_risk_score
     (metrics (score FRAUD_THRESHOLD [(''regressor'', constant_regressor (- 1))] load_rules ()
        retail_purchase 12)) = - 0.67 \<and>
   composite_risk_spec (- 0.67) 0 = 0"
proof -
  have a: "float_amount retail_purchase = Inr 50"
    by (simp add: float_amount_def retail_purchase_def)
  show ?thesis
    by (simp add: final_regressor metrics_regressor calculate_risk_metrics_def a
        risk_factors_retail composite_risk_spec_def Let_def)
qed

subsection \<open>The anomaly model's threshold\<close>

lemma stretch_nth: "i < length xs \<Longrightarrow> stretch xs i = xs ! i"
  by (auto simp: stretch_def)

lemma broadcast_dim_same: "broadcast_dim a a = Some a"
  by (simp add: broadcast_dim_def)

lemma same_shape_errors:
  assumes "same_shape X (Array2 R)"
  shows "reconstruction_errors X (Array2 R) =
         Inr (map (\<lambda>i. per_sample_error_spec (X ! i) (R ! i)) [0 ..< length X])"
proof -
  have len: "length R = length X" and wx: "list_all (\<lambda>x. length x = width X) X"
    and wr: "list_all (\<lambda>r. length r = width X) R"
    using assms by (simp_all add: same_shape_def)
  have wR: "width R = width X"
  proof (cases R)
    case Nil
    then have "X = []" using len by simp
    then show ?thesis using Nil by (simp add: width_def)
  next
    case (Cons r rs)
    then show ?thesis using wr by (simp add: width_def)
  qed
  have row: "\<And>i. i < length X \<Longrightarrow>
      mean (map (\<lambda>j. (stretch (stretch X i) j - stretch (stretch R i) j)\<^sup>2) [0 ..< width X]) =
      per_sample_error_spec (X ! i) (R ! i)"
  proof -
    fix i assume i: "i < length X"
    have lx: "length (X ! i) = width X" using wx i by (simp add: list_all_length)
    have lr: "length (R ! i) = width X" using wr i len by (simp add: list_all_length)
    have "map (\<lambda>j. (stretch (stretch X i) j - stretch (stretch R i) j)\<^sup>2) [0 ..< width X] =
          map (\<lambda>j. (X ! i ! j - R ! i ! j)\<^sup>2) [0 ..< width X]"
      using i len lx lr by (simp add: stretch_nth)
    then show "mean (map (\<lambda>j. (stretch (stretch X i) j - stretch (stretch R i) j)\<^sup>2)
          [0 ..< width X]) = per_sample_error_spec (X ! i) (R ! i)"
      by (simp add: mean_def per_sample_error_spec_def lx interv_sum_list_conv_sum_set_nat
          atLeast0LessThan)
  qed
  show ?thesis
    by (simp add: reconstruction_errors_def len wR broadcast_dim_same row)
qed

text \<open>Whenever the reconstruction has the shape of a non-empty \<open>X\<close>, the threshold is the
  95th percentile of the per-sample reconstruction errors, whatever rate a caller has in
  mind.\<close>

lemma threshold_is_95th_percentile:
  assumes "X \<noteq> []" and "same_shape X (predict X)"
  shows "\<exists>t. calibrate_threshold_spec predict X 95 = Inr t \<and>
             threshold (calculate_threshold predict self X) = Some t"
proof -
  obtain R where R: "predict X = Array2 R" using assms(2) by (cases "predict X") (simp_all add: same_shape_def)
  let ?errs = "map (\<lambda>i. per_sample_error_spec (X ! i) (R ! i)) [0 ..< length X]"
  have e: "reconstruction_errors X (predict X) = Inr ?errs"
    using same_shape_errors[of X R] assms(2) by (simp add: R)
  obtain t where t: "np_percentile ?errs 95 = Inr t"
    using assms(1) by (simp add: np_percentile_def Let_def)
  have "calibrate_threshold_spec predict X 95 = Inr t"
    using t by (simp add: calibrate_threshold_spec_def R)
  moreover have "threshold (calculate_threshold predict self X) = Some t"
    using t e by (simp add: calculate_threshold_def)
  ultimately show ?thesis by blast
qed

text \<open>Broadcasting: a reconstruction of one row is subtracted from every sample. For the
  samples (1, 2) and (3, 4) against the row (0, 0) the errors are 2.5 and 12.5, and the
  threshold is 12.\<close>

lemma threshold_broadcast_example:
  "threshold (calculate_threshold single_zero_row \<lparr>threshold = None\<rparr> two_by_two_sample) =
     Some 12"
  by (simp add: calculate_threshold_def reconstruction_errors_def single_zero_row_def
      two_by_two_sample_def broadcast_dim_def width_def stretch_def mean_def
      np_percentile_def Let_def)


subsection \<open>The preprocessor\<close>

lemma numeric_column_known:
  "feature \<in> set numerical_features \<Longrightarrow> numeric_column feature f \<noteq> None"
  by (auto simp: numerical_features_def numeric_column_def)

lemma robust_fit_ok: "col \<noteq> [] \<Longrightarrow> \<exists>s. robust_fit col = Inr s"
  by (simp add: robust_fit_def np_percentile_def Let_def)

lemma time_since_last_column_length: "length (time_since_last_column prev rs) = length rs"
  by (induction rs arbitrary: prev) simp_all

lemma create_features_length: "length (create_features df) = length df"
  by (simp add: create_features_def Let_def time_since_last_column_length)

text \<open>The scalers \<open>fit\<close> stores: one per numerical feature, in the order of the list,
  each fitted on its column of the training features.\<close>

lemma fit_scalers_result:
  "set names \<subseteq> set numerical_features \<Longrightarrow> distinct (map fst acc @ names) \<Longrightarrow>
   fit_scalers feats names acc = Inr scs \<Longrightarrow>
   map fst scs = map fst acc @ names \<and>
   (\<forall>name \<in> set names.
      map_option Inr (map_of scs name) =
        Some (robust_fit (map (\<lambda>f. the (numeric_column name f)) feats)))"
proof (induction feats names acc rule: fit_scalers.induct)
  case (1 feats acc)
  then show ?case by simp
next
  case (2 feats feature rest acc)
  have known: "list_all (\<lambda>f. numeric_column feature f \<noteq> None) feats"
    using 2(3) by (simp add: list_all_iff numeric_column_known)
  obtain s where s: "robust_fit (map (\<lambda>f. the (numeric_column feature f)) feats) = Inr s"
    using 2(5) known by (auto split: sum.splits)
  have run: "fit_scalers feats rest (dict_set feature s acc) = Inr scs"
    using 2(5) known s by simp
  have notin: "feature \<notin> fst ` set acc" using 2(4) by auto
  have keys: "map fst (dict_set feature s acc) = map fst acc @ [feature]"
    using notin by (rule map_fst_dict_set)
  have d: "distinct (map fst (dict_set feature s acc) @ rest)"
    using 2(4) by (simp add: keys)
  have sub: "set rest \<subseteq> set numerical_features" using 2(3) by simp
  from 2(1)[OF known s sub d run]
  have ih: "map fst scs = map fst (dict_set feature s acc) @ rest"
    "\<forall>name \<in> set rest. map_option Inr (map_of scs name) =
        Some (robust_fit (map (\<lambda>f. the (numeric_column name f)) feats))"
    by simp_all
  have dscs: "distinct (map fst scs)" using ih(1) d by simp
  have "(feature, s) \<in> set scs"
  proof -
    have "\<And>acc'. fit_scalers feats rest acc' = Inr scs \<Longrightarrow> feature \<notin> set rest \<Longrightarrow>
        (feature, s) \<in> set acc' \<Longrightarrow> (feature, s) \<in> set scs"
    proof -
      fix acc'
      show "fit_scalers feats rest acc' = Inr scs \<Longrightarrow> feature \<notin> set rest \<Longrightarrow>
        (feature, s) \<in> set acc' \<Longrightarrow> (feature, s) \<in> set scs"
      proof (induction feats rest acc' rule: fit_scalers.induct)
        case (1 feats acc) then show ?case by simp
      next
        case (2 feats f' rest acc)
        have keep: "\<And>v. (feature, s) \<in> set (dict_set f' v acc)"
        proof -
          fix v
          have "f' \<noteq> feature" using 2(4) by auto
          then show "(feature, s) \<in> set (dict_set f' v acc)"
            using 2(5) by (induction acc) auto
        qed
        show ?case using 2 keep by (auto split: if_splits sum.splits)
      qed
    qed
    moreover have "(feature, s) \<in> set (dict_set feature s acc)" by (induction acc) auto
    moreover have "feature \<notin> set rest" using 2(4) by simp
    ultimately show ?thesis using run by blast
  qed
  then have "map_of scs feature = Some s" using dscs by simp
  then show ?case using ih s by (simp add: keys)
qed


lemma fit_scalers_ok:
  "feats \<noteq> [] \<Longrightarrow> \<exists>scs. fit_scalers feats names acc = Inr scs"
proof (induction feats names acc rule: fit_scalers.induct)
  case (1 feats acc) show ?case by simp
next
  case (2 feats feature rest acc)
  show ?case
  proof (cases "list_all (\<lambda>f. numeric_column feature f \<noteq> None) feats")
    case True
    obtain s where s: "robust_fit (map (\<lambda>f. the (numeric_column feature f)) feats) = Inr s"
      using robust_fit_ok[of "map (\<lambda>f. the (numeric_column feature f)) feats"] 2(3) by auto
    show ?thesis using 2(1)[OF True s 2(3)] True s by simp
  next
    case False
    show ?thesis using 2(2)[OF False 2(3)] False by simp
  qed
qed

lemma fit_ok:
  assumes "df \<noteq> []"
  shows "\<exists>p. fit self df = Inr p"
proof -
  have "create_features df \<noteq> []"
    using assms create_features_length[of df] by (cases "create_features df") auto
  from fit_scalers_ok[OF this, of numerical_features "scalers self"]
  show ?thesis by (auto simp: fit_def Let_def)
qed

lemma fit_new_fields:
  assumes "fit new_preprocessor training = Inr p"
  shows "is_fitted p"
    and "encoders p = fit_encoders (create_features training) categorical_features []"
    and "map fst (scalers p) = numerical_features"
    and "name \<in> set numerical_features \<Longrightarrow>
         map_option Inr (map_of (scalers p) name) =
           Some (robust_fit (map (\<lambda>f. the (numeric_column name f)) (create_features training)))"
proof -
  obtain scs where scs: "fit_scalers (create_features training) numerical_features [] = Inr scs"
    and p: "p = \<lparr>scalers = scs,
                 encoders = fit_encoders (create_features training) categorical_features [],
                 feature_names =
                   numerical_features @ map (\<lambda>feat. feat @ ''_encoded'') categorical_features @
                   binary_features,
                 is_fitted = True\<rparr>"
    using assms by (auto simp: fit_def Let_def new_preprocessor_def split: sum.splits)
  have d: "distinct (map fst ([] :: (string \<times> scaler) list) @ numerical_features)"
    by (simp add: numerical_features_def)
  note r = fit_scalers_result[OF subset_refl d scs]
  show "is_fitted p" by (simp add: p)
  show "encoders p = fit_encoders (create_features training) categorical_features []"
    by (simp add: p)
  show "map fst (scalers p) = numerical_features" using r by (simp add: p)
  show "name \<in> set numerical_features \<Longrightarrow>
         map_option Inr (map_of (scalers p) name) =
           Some (robust_fit (map (\<lambda>f. the (numeric_column name f)) (create_features training)))"
    using r by (simp add: p)
qed

lemma scaled_columns_known:
  "set (map fst scs) \<subseteq> set numerical_features \<Longrightarrow>
   scaled_columns scs feats =
     map (\<lambda>(feature, s). map (\<lambda>f. (the (numeric_column feature f) - center s) / scale s) feats) scs"
proof (induction scs)
  case Nil show ?case by (simp add: scaled_columns_def)
next
  case (Cons a scs)
  obtain n s where a: "a = (n, s)" by (cases a)
  have "list_all (\<lambda>f. numeric_column n f \<noteq> None) feats"
    using Cons.prems by (simp add: a list_all_iff numeric_column_known)
  moreover have "scaled_columns scs feats =
     map (\<lambda>(feature, s). map (\<lambda>f. (the (numeric_column feature f) - center s) / scale s) feats) scs"
    using Cons by simp
  ultimately show ?case by (simp add: scaled_columns_def a)
qed

lemma column_stack_column:
  "k < length cols \<Longrightarrow> length (cols ! k) = n \<Longrightarrow> feature_column k (column_stack n cols) = cols ! k"
  by (auto simp: feature_column_def column_stack_def intro!: nth_equalityI)

text \<open>Column \<open>k\<close> of the transformed frame, for the position \<open>k\<close> of a numerical feature:
  the feature's column of the features created from the incoming frame, scaled with the
  scaler fitted on the training corpus.\<close>

lemma numeric_feature_column:
  assumes fit: "fit new_preprocessor training = Inr p"
    and tr: "transform p df = Inr rows"
    and k: "k < length numerical_features"
    and s: "robust_fit (map (\<lambda>f. the (numeric_column (numerical_features ! k) f))
              (create_features training)) = Inr s"
  shows "feature_column k rows =
     map (\<lambda>f. (the (numeric_column (numerical_features ! k) f) - center s) / scale s)
         (create_features df)"
proof -
  let ?feats = "create_features df"
  let ?name = "numerical_features ! k"
  note f = fit_new_fields[OF fit]
  have len: "length (scalers p) = length numerical_features"
    using f(3) by (metis length_map)
  have kn: "?name \<in> set numerical_features" using k by simp
  have fstk: "fst (scalers p ! k) = ?name"
    using f(3) k len by (metis nth_map)
  have dist: "distinct (map fst (scalers p))" by (simp add: f(3) numerical_features_def)
  have "map_of (scalers p) ?name = Some s" using f(4)[OF kn] s by (cases "map_of (scalers p) ?name") auto
  moreover have "map_of (scalers p) (fst (scalers p ! k)) = Some (snd (scalers p ! k))"
    using dist k len by (simp add: map_of_eq_Some_iff)
  ultimately have sndk: "snd (scalers p ! k) = s" using fstk by simp
  obtain encoded where rows: "rows = column_stack (length ?feats)
      (scaled_columns (scalers p) ?feats @ encoded @ binary_columns ?feats)"
    using tr by (auto simp: transform_def Let_def split: if_splits sum.splits)
  have sc: "scaled_columns (scalers p) ?feats =
     map (\<lambda>(feature, s). map (\<lambda>f. (the (numeric_column feature f) - center s) / scale s) ?feats)
         (scalers p)"
    by (rule scaled_columns_known) (simp add: f(3))
  have col: "(scaled_columns (scalers p) ?feats @ encoded @ binary_columns ?feats) ! k =
      map (\<lambda>f. (the (numeric_column ?name f) - center s) / scale s) ?feats"
    using k len fstk sndk by (simp add: sc nth_append case_prod_beta)
  have "feature_column k rows =
      (scaled_columns (scalers p) ?feats @ encoded @ binary_columns ?feats) ! k"
    unfolding rows
    by (rule column_stack_column) (use k len col in \<open>simp_all add: sc\<close>)
  then show ?thesis using col by simp
qed


lemma label_index_member: "(label_index classes v = None) = (v \<notin> set classes)"
  by (induction classes) auto

lemma encode_value_raises:
  "isl (encode_value classes v) = (v \<notin> set classes \<and> ''unknown'' \<notin> set classes)"
  using label_index_member[of classes v] label_index_member[of classes "''unknown''"]
  by (auto simp: encode_value_def label_transform_def split: sum.splits option.splits)

lemma training_encoders:
  "fit_encoders (create_features training_frame) categorical_features [] =
   [(''merchant'', [''amazon'', ''walmart'']), (''category'', [''retail'']),
    (''location'', [''NY''])]"
  by (simp add: categorical_features_def create_features_def training_frame_def Let_def
      categorical_column_def feature_row_of_def label_fit_def)

lemma training_amount_mean_scaler:
  "robust_fit (map amount_mean (create_features training_frame)) =
     Inr \<lparr>center = 200, scale = 100\<rparr>"
  by (simp add: create_features_def training_frame_def Let_def feature_row_of_def
      group_amounts_def mean_def robust_fit_def np_percentile_def)

lemma single_record_aggregates:
  "map amount_mean (create_features [r]) = [tx_amount r] \<and>
   map amount_std (create_features [r]) = [0] \<and>
   map amount_min (create_features [r]) = [tx_amount r] \<and>
   map amount_max (create_features [r]) = [tx_amount r] \<and>
   map amount_count (create_features [r]) = [1]"
  by (simp add: create_features_def Let_def feature_row_of_def group_amounts_def mean_def
      sample_std_def list_min_def list_max_def)

lemma known_purchase_encodes:
  "merchant r = Some ''amazon'' \<Longrightarrow> category r = Some ''retail'' \<Longrightarrow> location r = Some ''NY'' \<Longrightarrow>
   encoded_columns
     [(''merchant'', [''amazon'', ''walmart'']), (''category'', [''retail'']),
      (''location'', [''NY''])] (create_features [r]) = Inr [[0], [0], [0]]"
  by (simp add: create_features_def Let_def feature_row_of_def categorical_column_def
      encode_value_def label_transform_def)

lemma transform_known_purchase:
  assumes "fit new_preprocessor training_frame = Inr p"
    and "merchant r = Some ''amazon''" and "category r = Some ''retail''"
    and "location r = Some ''NY''"
  shows "\<exists>rows. transform p [r] = Inr rows"
  using fit_new_fields(1,2)[OF assms(1)] known_purchase_encodes[OF assms(2-4)]
  by (simp add: transform_def Let_def training_encoders)

text \<open>
  C6, as stated, fails: \<open>transform\<close> calls \<open>create_features\<close> on the frame it is given, and
  the per-user statistics are grouped from that frame. With one fitted preprocessor, two
  single records of the same user \<open>u1\<close> (whose training mean is 100) get the
  \<open>amount_mean\<close> features -1.9 and 3: the scaled values of their own amounts 10 and 500.
\<close>

theorem aggregates_lookup_counterexample:
  "user_id small_purchase = user_id large_purchase \<and>
   map_sum id (feature_column 4) (transform_after_fit training_frame [small_purchase]) =
     Inr [- 1.9] \<and>
   map_sum id (feature_column 4) (transform_after_fit training_frame [large_purchase]) =
     Inr [3]"
proof -
  obtain p where p: "fit new_preprocessor training_frame = Inr p"
    using fit_ok[of training_frame new_preprocessor] by (auto simp: training_frame_def)
  have k: "4 < length numerical_features" by (simp add: numerical_features_def)
  have name: "numerical_features ! 4 = ''amount_mean''" by (simp add: numerical_features_def)
  have col: "(\<lambda>f. the (numeric_column ''amount_mean'' f)) = amount_mean"
    by (simp add: numeric_column_def fun_eq_iff)
  have s: "robust_fit (map (\<lambda>f. the (numeric_column (numerical_features ! 4) f))
              (create_features training_frame)) = Inr \<lparr>center = 200, scale = 100\<rparr>"
    by (simp add: name col training_amount_mean_scaler)
  obtain rows1 where r1: "transform p [small_purchase] = Inr rows1"
    using transform_known_purchase[OF p, of small_purchase] by (auto simp: small_purchase_def)
  obtain rows2 where r2: "transform p [large_purchase] = Inr rows2"
    using transform_known_purchase[OF p, of large_purchase] by (auto simp: large_purchase_def)
  have "feature_column 4 rows1 =
      map (\<lambda>v. (v - 200) / 100) (map amount_mean (create_features [small_purchase]))"
    using numeric_feature_column[OF p r1 k s] by (simp add: name numeric_column_def o_def)
  then have c1: "feature_column 4 rows1 = [- 1.9]"
    by (simp add: single_record_aggregates small_purchase_def)
  have "feature_column 4 rows2 =
      map (\<lambda>v. (v - 200) / 100) (map amount_mean (create_features [large_purchase]))"
    using numeric_feature_column[OF p r2 k s] by (simp add: name numeric_column_def o_def)
  then have c2: "feature_column 4 rows2 = [3]"
    by (simp add: single_record_aggregates large_purchase_def)
  have t1: "transform_after_fit training_frame [small_purchase] = Inr rows1"
    by (simp add: transform_after_fit_def p r1)
  have t2: "transform_after_fit training_frame [large_purchase] = Inr rows2"
    by (simp add: transform_after_fit_def p r2)
  have u: "user_id small_purchase = user_id large_purchase"
    by (simp add: small_purchase_def large_purchase_def)
  show ?thesis by (simp add: t1 t2 c1 c2 u)
qed

text \<open>
  C7. A categorical value not seen at fit time is meant to be encoded as the reserved
  class \<open>'unknown'\<close>, and \<open>transform\<close> has a handler for it; but \<open>fit\<close> puts \<open>'unknown'\<close>
  among an encoder's classes only when the training column had a missing value. Fitted
  on a corpus without missing merchants, \<open>transform\<close> raises \<open>ValueError\<close> on a record
  whose merchant was not seen.
\<close>

theorem unseen_category_raises:
  "\<not> isl (fit new_preprocessor training_frame) \<and>
   transform_after_fit training_frame [unseen_merchant_purchase] = Inl ValueError"
proof -
  obtain p where p: "fit new_preprocessor training_frame = Inr p"
    using fit_ok[of training_frame new_preprocessor] by (auto simp: training_frame_def)
  have "encoded_columns
     [(''merchant'', [''amazon'', ''walmart'']), (''category'', [''retail'']),
      (''location'', [''NY''])] (create_features [unseen_merchant_purchase]) = Inl ValueError"
    by (simp add: create_features_def Let_def feature_row_of_def categorical_column_def
      encode_value_def label_transform_def unseen_merchant_purchase_def)
  then have "transform p [unseen_merchant_purchase] = Inl ValueError"
    using fit_new_fields(1,2)[OF p] by (simp add: transform_def Let_def training_encoders)
  then show ?thesis by (simp add: transform_after_fit_def p)
qed


text \<open>
  C6, amended. At inference time the aggregate features of the vector (columns 4 to 7:
  mean, standard deviation, minimum and maximum of the user's amounts) are computed from
  the records passed to \<open>transform\<close>, grouped by user; from the fitted state come only
  the scalers (center and scale, fitted on the training corpus) applied to them.
\<close>

theorem aggregates_recomputed:
  assumes "fit new_preprocessor training = Inr p" and "transform p df = Inr rows"
  shows "\<exists>s_mean s_std s_min s_max.
     robust_fit (map amount_mean (create_features training)) = Inr s_mean \<and>
     robust_fit (map amount_std (create_features training)) = Inr s_std \<and>
     robust_fit (map amount_min (create_features training)) = Inr s_min \<and>
     robust_fit (map amount_max (create_features training)) = Inr s_max \<and>
     feature_column 4 rows =
       map (\<lambda>f. (mean (group_amounts df (user_id (source_row f))) - center s_mean) / scale s_mean)
           (create_features df) \<and>
     feature_column 5 rows =
       map (\<lambda>f. (sample_std (group_amounts df (user_id (source_row f))) - center s_std) / scale s_std)
           (create_features df) \<and>
     feature_column 6 rows =
       map (\<lambda>f. (list_min (group_amounts df (user_id (source_row f))) - center s_min) / scale s_min)
           (create_features df) \<and>
     feature_column 7 rows =
       map (\<lambda>f. (list_max (group_amounts df (user_id (source_row f))) - center s_max) / scale s_max)
           (create_features df)"
proof -
  have ne: "create_features training \<noteq> []"
  proof
    assume e: "create_features training = []"
    then have "training = []" using create_features_length[of training] by simp
    then show False using assms(1) e
      by (simp add: fit_def Let_def new_preprocessor_def numerical_features_def
          numeric_column_def robust_fit_def np_percentile_def)
  qed
  obtain s_mean where m: "robust_fit (map amount_mean (create_features training)) = Inr s_mean"
    using robust_fit_ok[of "map amount_mean (create_features training)"] ne by auto
  obtain s_std where sd: "robust_fit (map amount_std (create_features training)) = Inr s_std"
    using robust_fit_ok[of "map amount_std (create_features training)"] ne by auto
  obtain s_min where mn: "robust_fit (map amount_min (create_features training)) = Inr s_min"
    using robust_fit_ok[of "map amount_min (create_features training)"] ne by auto
  obtain s_max where mx: "robust_fit (map amount_max (create_features training)) = Inr s_max"
    using robust_fit_ok[of "map amount_max (create_features training)"] ne by auto
  have names: "numerical_features ! 4 = ''amount_mean''" "numerical_features ! 5 = ''amount_std''"
    "numerical_features ! 6 = ''amount_min''" "numerical_features ! 7 = ''amount_max''"
    by (simp_all add: numerical_features_def)
  have len: "4 < length numerical_features" "5 < length numerical_features"
    "6 < length numerical_features" "7 < length numerical_features"
    by (simp_all add: numerical_features_def)
  have c4: "feature_column 4 rows =
      map (\<lambda>f. (amount_mean f - center s_mean) / scale s_mean) (create_features df)"
    using numeric_feature_column[OF assms len(1), of s_mean] m
    by (simp add: names numeric_column_def)
  have c5: "feature_column 5 rows =
      map (\<lambda>f. (amount_std f - center s_std) / scale s_std) (create_features df)"
    using numeric_feature_column[OF assms len(2), of s_std] sd
    by (simp add: names numeric_column_def)
  have c6: "feature_column 6 rows =
      map (\<lambda>f. (amount_min f - center s_min) / scale s_min) (create_features df)"
    using numeric_feature_column[OF assms len(3), of s_min] mn
    by (simp add: names numeric_column_def)
  have c7: "feature_column 7 rows =
      map (\<lambda>f. (amount_max f - center s_max) / scale s_max) (create_features df)"
    using numeric_feature_column[OF assms len(4), of s_max] mx
    by (simp add: names numeric_column_def)
  have agg: "\<And>f. f \<in> set (create_features df) \<Longrightarrow>
      amount_mean f = mean (group_amounts df (user_id (source_row f))) \<and>
      amount_std f = sample_std (group_amounts df (user_id (source_row f))) \<and>
      amount_min f = list_min (group_amounts df (user_id (source_row f))) \<and>
      amount_max f = list_max (group_amounts df (user_id (source_row f)))"
    by (auto simp: create_features_def Let_def feature_row_of_def)
  show ?thesis
    using m sd mn mx agg by (simp add: c4 c5 c6 c7)
qed

text \<open>For a single incoming record of \<open>u1\<close> with amount 10 the feature is
  \<open>(10 - 200) / 100\<close>, although the training corpus holds the amount 100 for \<open>u1\<close>.\<close>

theorem aggregates_recomputed_witness:
  "\<exists>p rows. fit new_preprocessor training_frame = Inr p \<and>
     transform p [small_purchase] = Inr rows \<and>
     group_amounts [small_purchase] ''u1'' = [10] \<and>
     group_amounts training_frame ''u1'' = [100] \<and>
     feature_column 4 rows = [- 1.9]"
proof -
  obtain p where p: "fit new_preprocessor training_frame = Inr p"
    using fit_ok[of training_frame new_preprocessor] by (auto simp: training_frame_def)
  obtain rows where r: "transform p [small_purchase] = Inr rows"
    using transform_known_purchase[OF p, of small_purchase] by (auto simp: small_purchase_def)
  have g: "group_amounts [small_purchase] ''u1'' = [10]"
    by (simp add: group_amounts_def small_purchase_def)
  have g': "group_amounts training_frame ''u1'' = [100]"
    by (simp add: group_amounts_def training_frame_def)
  have raw1: "map source_row (create_features [small_purchase]) = [small_purchase]"
    by (simp add: create_features_def Let_def feature_row_of_def)
  have f1: "\<exists>f. create_features [small_purchase] = [f] \<and> source_row f = small_purchase"
    using raw1 by (cases "create_features [small_purchase]") auto
  have uid: "user_id small_purchase = ''u1''" by (simp add: small_purchase_def)
  from aggregates_recomputed[OF p r] training_amount_mean_scaler f1
  have "feature_column 4 rows = [- 1.9]"
    by (auto simp: uid g mean_def)
  then show ?thesis using p r g g' by blast
qed

end
